theory Spec2Isabelle
  imports Main "HOL-Library.Word" "HOL-Library.List_Lexorder" "HOL-Library.Char_ord"
begin

section \<open>Go values\<close>

text \<open>
  Go's \<open>int\<close> is a machine integer. The daemon, the devicemapper driver and
  \<open>pkg/idtools\<close> run on 64-bit Linux, where \<open>int\<close> has 64 bits and signed
  arithmetic wraps around; \<open>+\<close> and \<open>-\<close> on \<open>64 word\<close> wrap the same way, and
  the comparisons of the source are the signed ones (\<open>\<le>s\<close>, \<open><s\<close>).
\<close>

type_synonym goint = "64 word"

definition MaxInt32 :: goint where
  "MaxInt32 = 2147483647"

definition MaxInt64 :: goint where
  "MaxInt64 = 9223372036854775807"

text \<open>
  Errors are values. The constructors follow the \<open>fmt.Errorf\<close> and \<open>os\<close> errors of
  the sources; \<open>os.IsNotExist\<close> and \<open>os.IsExist\<close> recognise the two \<open>os\<close> errors
  the code tests for.
\<close>

datatype goerror =
    ErrHostUnmappable goint
  | ErrContainerUnmappable goint
  | ErrRemapRange
  | ErrInvalidSpec string
  | ErrUidLookup string goerror
  | ErrGidLookup string goerror
  | ErrNativeExecDriverOnly
  | ErrNoUsernsOnWindows
  | ErrCreateMappings goerror
  | ErrNotExist
  | ErrExist
  | ErrNotDir
  | ErrOther string
  | ErrCreateSubroot string goerror
  | ErrMigrateRoot string goerror
  | ErrCreateRoot string goerror

fun IsNotExist :: "goerror \<Rightarrow> bool" where
  "IsNotExist ErrNotExist = True"
| "IsNotExist _ = False"

fun IsExist :: "goerror \<Rightarrow> bool" where
  "IsExist ErrExist = True"
| "IsExist _ = False"

section \<open>pkg/idtools: the ID-map table\<close>

record IDMap =
  ContainerID :: goint
  HostID :: goint
  Size :: goint

text \<open>
  A slice \<open>[]IDMap\<close> is \<open>IDMap list option\<close>: \<open>None\<close> is the nil slice, and
  \<open>Some []\<close> the empty slice that is not nil (\<open>[]IDMap{}\<close>), which the test
  \<open>idMap == nil\<close> of the source tells apart. The \<open>for ... range\<close> loops are the
  \<open>_loop\<close> functions; a failed translation returns \<open>(-1, err)\<close> in Go and
  \<open>Inl err\<close> here.
\<close>

fun TranslateIDToContainer_loop :: "goint \<Rightarrow> IDMap list \<Rightarrow> goerror + goint" where
  "TranslateIDToContainer_loop hostID [] = Inl (ErrHostUnmappable hostID)"
| "TranslateIDToContainer_loop hostID (m # ms) =
     (if HostID m \<le>s hostID \<and> hostID \<le>s HostID m + Size m - 1
      then Inr (ContainerID m + (hostID - HostID m))
      else TranslateIDToContainer_loop hostID ms)"

definition TranslateIDToContainer :: "goint \<Rightarrow> IDMap list option \<Rightarrow> goerror + goint" where
  "TranslateIDToContainer hostID idMap =
     (case idMap of
        None \<Rightarrow> Inr hostID
      | Some ms \<Rightarrow> TranslateIDToContainer_loop hostID ms)"

fun TranslateIDToHost_loop :: "goint \<Rightarrow> IDMap list \<Rightarrow> goerror + goint" where
  "TranslateIDToHost_loop contID [] = Inl (ErrContainerUnmappable contID)"
| "TranslateIDToHost_loop contID (m # ms) =
     (if ContainerID m \<le>s contID \<and> contID \<le>s ContainerID m + Size m - 1
      then Inr (HostID m + (contID - ContainerID m))
      else TranslateIDToHost_loop contID ms)"

definition TranslateIDToHost :: "goint \<Rightarrow> IDMap list option \<Rightarrow> goerror + goint" where
  "TranslateIDToHost contID idMap =
     (case idMap of
        None \<Rightarrow> Inr contID
      | Some ms \<Rightarrow> TranslateIDToHost_loop contID ms)"

definition GetRootUIDGID ::
  "IDMap list option \<Rightarrow> IDMap list option \<Rightarrow> goerror + (goint \<times> goint)" where
  "GetRootUIDGID uidMap gidMap =
     (case (if uidMap \<noteq> None then TranslateIDToHost 0 uidMap else Inr 0) of
        Inl err \<Rightarrow> Inl err
      | Inr uid \<Rightarrow>
          (case (if gidMap \<noteq> None then TranslateIDToHost 0 gidMap else Inr 0) of
             Inl err \<Rightarrow> Inl err
           | Inr gid \<Rightarrow> Inr (uid, gid)))"

definition createIDMap :: "goint \<Rightarrow> IDMap list" where
  "createIDMap ident =
     (let idMap = [];
          idMap = idMap @ [\<lparr>ContainerID = 0, HostID = ident, Size = 1\<rparr>];
          idMap = idMap @ [\<lparr>ContainerID = 1, HostID = 1, Size = ident - 1\<rparr>];
          idMap = idMap @
            [\<lparr>ContainerID = ident + 1, HostID = ident + 1, Size = MaxInt32 - ident\<rparr>]
      in idMap)"

definition CreateIDMapsForRoot ::
  "goint \<Rightarrow> goint \<Rightarrow> goerror + (IDMap list option \<times> IDMap list option)" where
  "CreateIDMapsForRoot uid gid =
     (if uid <s 1 \<or> gid <s 1 then Inl ErrRemapRange
      else Inr (Some (createIDMap uid), Some (createIDMap gid)))"

subsection \<open>The ranges as the data model reads them\<close>

text \<open>
  The data model reads a range as the block of \<open>Size\<close> identities that starts at
  \<open>ContainerID\<close> (at \<open>HostID\<close> on the host axis), as integers: an id \<open>c\<close> is in the
  range when \<open>ContainerID \<le> c < ContainerID + Size\<close>. These two predicates state
  that reading; the code's own test is the one in the loops above.
\<close>

definition inContainerRange :: "IDMap \<Rightarrow> goint \<Rightarrow> bool" where
  "inContainerRange m c \<longleftrightarrow>
     sint (ContainerID m) \<le> sint c \<and> sint c < sint (ContainerID m) + sint (Size m)"

definition inHostRange :: "IDMap \<Rightarrow> goint \<Rightarrow> bool" where
  "inHostRange m h \<longleftrightarrow>
     sint (HostID m) \<le> sint h \<and> sint h < sint (HostID m) + sint (Size m)"

text \<open>
  The last id of a range, \<open>ContainerID + Size - 1\<close>, is not below the least \<open>int\<close>:
  true of every range with \<open>Size \<ge> 1\<close>, and of an empty range (\<open>Size = 0\<close>) that
  does not start at the least \<open>int\<close>.
\<close>

definition lastIDsNotBelowMin :: "IDMap \<Rightarrow> bool" where
  "lastIDsNotBelowMin m \<longleftrightarrow>
     - 9223372036854775808 \<le> sint (ContainerID m) + sint (Size m) - 1 \<and>
     - 9223372036854775808 \<le> sint (HostID m) + sint (Size m) - 1"

section \<open>daemon: the remapped-root option\<close>

subsection \<open>The two standard-library functions the parser calls\<close>

text \<open>
  \<open>strings.Split(s, ":")\<close> cuts \<open>s\<close> at every separator and returns the pieces in
  order; a string without the separator, the empty string included, is returned as the
  one piece.
\<close>

fun Split :: "string \<Rightarrow> char \<Rightarrow> string list" where
  "Split [] sep = [[]]"
| "Split (c # cs) sep =
     (if c = sep then [] # Split cs sep
      else (case Split cs sep of
              [] \<Rightarrow> [[c]]
            | w # ws \<Rightarrow> (c # w) # ws))"

text \<open>
  \<open>strconv.ParseInt(s, 10, 32)\<close>: an optional sign, then one or more decimal digits;
  the value must fit a signed 32-bit integer. Every failure (syntax or range) is an
  error, here \<open>None\<close>; the caller only tests \<open>err == nil\<close>.
\<close>

definition isDigit :: "char \<Rightarrow> bool" where
  "isDigit c \<longleftrightarrow> 48 \<le> (of_char c :: int) \<and> (of_char c :: int) \<le> 57"

fun ParseUint_loop :: "string \<Rightarrow> int \<Rightarrow> int option" where
  "ParseUint_loop [] n = Some n"
| "ParseUint_loop (c # cs) n =
     (if isDigit c then ParseUint_loop cs (n * 10 + (of_char c - 48)) else None)"

definition ParseUint :: "string \<Rightarrow> int option" where
  "ParseUint s = (if s = [] then None else ParseUint_loop s 0)"

definition ParseInt32 :: "string \<Rightarrow> int option" where
  "ParseInt32 s =
     (case s of
        [] \<Rightarrow> None
      | c # r \<Rightarrow>
          (let neg = (c = CHR ''-'');
               s' = (if c = CHR ''+'' \<or> c = CHR ''-'' then r else s)
           in case ParseUint s' of
                None \<Rightarrow> None
              | Some un \<Rightarrow>
                  if \<not> neg \<and> un \<ge> 2147483648 then None
                  else if neg \<and> un > 2147483648 then None
                  else Some (if neg then - un else un)))"

subsection \<open>parseRemappedRoot and setupRemappedRoot\<close>

text \<open>
  \<open>user.LookupUser\<close> and \<open>user.LookupGroup\<close> read the host's user database; they are
  parameters of the model, returning the \<open>Uid\<close> (the \<open>Gid\<close>) of the entry found or an
  error. \<open>userId\<close> and \<open>groupId\<close> start at 0, as Go's \<open>var\<close> declares them.
\<close>

definition parseRemappedRoot ::
  "(string \<Rightarrow> goerror + goint) \<Rightarrow> (string \<Rightarrow> goerror + goint) \<Rightarrow> string \<Rightarrow>
   goerror + (goint \<times> goint)" where
  "parseRemappedRoot LookupUser LookupGroup usergrp =
     (let idparts = Split usergrp CHR '':'' in
      if length idparts > 2 then Inl (ErrInvalidSpec usergrp)
      else
        (case (case ParseInt32 (idparts ! 0) of
                 Some uid \<Rightarrow>
                   Inr (word_of_int uid, if length idparts = 1 then word_of_int uid else 0)
               | None \<Rightarrow>
                   (case LookupUser (idparts ! 0) of
                      Inl err \<Rightarrow> Inl (ErrUidLookup (idparts ! 0) err)
                    | Inr luserUid \<Rightarrow>
                        if length idparts = 1 then
                          (case LookupGroup (idparts ! 0) of
                             Inl err \<Rightarrow> Inl (ErrGidLookup (idparts ! 0) err)
                           | Inr groupGid \<Rightarrow> Inr (luserUid, groupGid))
                        else Inr (luserUid, 0))) of
           Inl err \<Rightarrow> Inl err
         | Inr (userId, groupId) \<Rightarrow>
             if length idparts = 2 then
               (case ParseInt32 (idparts ! 1) of
                  Some gid \<Rightarrow> Inr (userId, word_of_int gid)
                | None \<Rightarrow>
                    (case LookupGroup (idparts ! 1) of
                       Inl err \<Rightarrow> Inl (ErrGidLookup (idparts ! 1) err)
                     | Inr groupGid \<Rightarrow> Inr (userId, groupGid)))
             else Inr (userId, groupId)))"

text \<open>
  The fields of \<open>Config\<close> that the daemon-root code reads or writes. \<open>Root\<close> is the
  path of the daemon root.
\<close>

record Config =
  Root :: string
  ExecDriver :: string
  RemappedRoot :: string

definition setupRemappedRoot ::
  "string \<Rightarrow> (string \<Rightarrow> goerror + goint) \<Rightarrow> (string \<Rightarrow> goerror + goint) \<Rightarrow> Config \<Rightarrow>
   goerror + (IDMap list option \<times> IDMap list option)" where
  "setupRemappedRoot GOOS LookupUser LookupGroup config =
     (if ExecDriver config \<noteq> ''native'' \<and> RemappedRoot config \<noteq> '''' then
        Inl ErrNativeExecDriverOnly
      else if GOOS = ''windows'' \<and> RemappedRoot config \<noteq> '''' then
        Inl ErrNoUsernsOnWindows
      else if RemappedRoot config \<noteq> '''' then
        (case parseRemappedRoot LookupUser LookupGroup (RemappedRoot config) of
           Inl err \<Rightarrow> Inl err
         | Inr (uid, gid) \<Rightarrow>
             (case CreateIDMapsForRoot uid gid of
                Inl err \<Rightarrow> Inl (ErrCreateMappings err)
              | Inr (uidMaps, gidMaps) \<Rightarrow> Inr (uidMaps, gidMaps)))
      else Inr (None, None))"

section \<open>The host: paths, the operating system, the device set\<close>

subsection \<open>path.Join and path.Clean\<close>

text \<open>
  \<open>path.Clean\<close> (and \<open>filepath.Clean\<close> on Linux) works on the text of a path: it drops
  empty and \<open>.\<close> elements, cancels an inner \<open>..\<close> against the element before it, drops
  a \<open>..\<close> that would climb above the root of a rooted path and keeps it at the front of
  a relative one; the empty result is \<open>.\<close>. \<open>path.Join\<close> joins its elements from the
  first non-empty one on with \<open>/\<close> and cleans the result; with no non-empty element it
  returns the empty string.
\<close>

fun cleanElems :: "bool \<Rightarrow> string list \<Rightarrow> string list \<Rightarrow> string list" where
  "cleanElems rooted out [] = out"
| "cleanElems rooted out (e # es) =
     (if e = [] \<or> e = ''.'' then cleanElems rooted out es
      else if e = ''..'' then
        (if out \<noteq> [] \<and> last out \<noteq> ''..'' then cleanElems rooted (butlast out) es
         else if rooted then cleanElems rooted out es
         else cleanElems rooted (out @ [''..'']) es)
      else cleanElems rooted (out @ [e]) es)"

fun joinSlash :: "string list \<Rightarrow> string" where
  "joinSlash [] = []"
| "joinSlash [e] = e"
| "joinSlash (e # es) = e @ CHR ''/'' # joinSlash es"

definition Clean :: "string \<Rightarrow> string" where
  "Clean p =
     (if p = [] then ''.''
      else
        (let rooted = (hd p = CHR ''/'');
             out = joinSlash (cleanElems rooted [] (Split p CHR ''/''))
         in if rooted then CHR ''/'' # out
            else if out = [] then ''.''
            else out))"

definition Join :: "string list \<Rightarrow> string" where
  "Join elem =
     (case dropWhile (\<lambda>e. e = []) elem of
        [] \<Rightarrow> []
      | es \<Rightarrow> Clean (joinSlash es))"

text \<open>
  A clean absolute path is the text \<open>/e1/e2/.../en\<close> of its components, each of them a
  name: not empty, not \<open>.\<close> or \<open>..\<close>, and without a slash.
\<close>

definition isName :: "string \<Rightarrow> bool" where
  "isName e \<longleftrightarrow> e \<noteq> [] \<and> e \<noteq> ''.'' \<and> e \<noteq> ''..'' \<and> CHR ''/'' \<notin> set e"

definition absPath :: "string list \<Rightarrow> string" where
  "absPath es = CHR ''/'' # joinSlash es"

subsection \<open>The operating system and the device set as capabilities\<close>

text \<open>
  The code acts on the host through the \<open>os\<close> and \<open>ioutil\<close> calls and through the
  \<open>DeviceSet\<close>. Each call is a function of the state of the host \<open>'w\<close> that returns its
  result and the new state; an error result \<open>None\<close> is Go's \<open>nil\<close>. The callers in the
  sources discard the \<open>FileInfo\<close> of \<open>os.Stat\<close> and read only the names from
  \<open>ioutil.ReadDir\<close>, so \<open>Stat\<close> returns its error and \<open>ReadDir\<close> the names.
\<close>

type_synonym FileMode = "32 word"

record 'w OS =
  Stat :: "string \<Rightarrow> 'w \<Rightarrow> goerror option \<times> 'w"
  Mkdir :: "string \<Rightarrow> FileMode \<Rightarrow> 'w \<Rightarrow> goerror option \<times> 'w"
  MkdirAll :: "string \<Rightarrow> FileMode \<Rightarrow> 'w \<Rightarrow> goerror option \<times> 'w"
  Chown :: "string \<Rightarrow> goint \<Rightarrow> goint \<Rightarrow> 'w \<Rightarrow> goerror option \<times> 'w"
  Chmod :: "string \<Rightarrow> FileMode \<Rightarrow> 'w \<Rightarrow> goerror option \<times> 'w"
  Rename :: "string \<Rightarrow> string \<Rightarrow> 'w \<Rightarrow> goerror option \<times> 'w"
  ReadDir :: "string \<Rightarrow> 'w \<Rightarrow> (goerror + string list) \<times> 'w"
  RemoveAll :: "string \<Rightarrow> 'w \<Rightarrow> goerror option \<times> 'w"
  WriteFile :: "string \<Rightarrow> string \<Rightarrow> FileMode \<Rightarrow> 'w \<Rightarrow> goerror option \<times> 'w"

record 'w DeviceSet =
  AddDevice :: "string \<Rightarrow> string \<Rightarrow> 'w \<Rightarrow> goerror option \<times> 'w"
  DeleteDevice :: "string \<Rightarrow> 'w \<Rightarrow> goerror option \<times> 'w"
  HasDevice :: "string \<Rightarrow> 'w \<Rightarrow> bool \<times> 'w"
  MountDevice :: "string \<Rightarrow> string \<Rightarrow> string \<Rightarrow> 'w \<Rightarrow> goerror option \<times> 'w"
  UnmountDevice :: "string \<Rightarrow> 'w \<Rightarrow> goerror option \<times> 'w"

subsection \<open>The calls a run makes\<close>

text \<open>
  To speak about which calls a run makes, and in which order, a capability is wrapped
  so that it appends its call to a log kept beside the state of the host. The wrapped
  capabilities behave as the given ones on the host.
\<close>

datatype call =
    CallStat string
  | CallMkdir string FileMode
  | CallMkdirAll string FileMode
  | CallChown string goint goint
  | CallChmod string FileMode
  | CallRename string string
  | CallReadDir string
  | CallRemoveAll string
  | CallWriteFile string string FileMode
  | CallAddDevice string string
  | CallDeleteDevice string
  | CallHasDevice string
  | CallMountDevice string string string
  | CallUnmountDevice string

definition logged :: "call \<Rightarrow> ('w \<Rightarrow> 'r \<times> 'w) \<Rightarrow> 'w \<times> call list \<Rightarrow> 'r \<times> 'w \<times> call list" where
  "logged c f = (\<lambda>(w, cs). case f w of (r, w') \<Rightarrow> (r, w', cs @ [c]))"

definition loggedOS :: "'w OS \<Rightarrow> ('w \<times> call list) OS" where
  "loggedOS sys =
     \<lparr>Stat = (\<lambda>p. logged (CallStat p) (Stat sys p)),
      Mkdir = (\<lambda>p m. logged (CallMkdir p m) (Mkdir sys p m)),
      MkdirAll = (\<lambda>p m. logged (CallMkdirAll p m) (MkdirAll sys p m)),
      Chown = (\<lambda>p u g. logged (CallChown p u g) (Chown sys p u g)),
      Chmod = (\<lambda>p m. logged (CallChmod p m) (Chmod sys p m)),
      Rename = (\<lambda>p q. logged (CallRename p q) (Rename sys p q)),
      ReadDir = (\<lambda>p. logged (CallReadDir p) (ReadDir sys p)),
      RemoveAll = (\<lambda>p. logged (CallRemoveAll p) (RemoveAll sys p)),
      WriteFile = (\<lambda>p d m. logged (CallWriteFile p d m) (WriteFile sys p d m))\<rparr>"

definition loggedDeviceSet :: "'w DeviceSet \<Rightarrow> ('w \<times> call list) DeviceSet" where
  "loggedDeviceSet ds =
     \<lparr>AddDevice = (\<lambda>i p. logged (CallAddDevice i p) (AddDevice ds i p)),
      DeleteDevice = (\<lambda>i. logged (CallDeleteDevice i) (DeleteDevice ds i)),
      HasDevice = (\<lambda>i. logged (CallHasDevice i) (HasDevice ds i)),
      MountDevice = (\<lambda>i p l. logged (CallMountDevice i p l) (MountDevice ds i p l)),
      UnmountDevice = (\<lambda>i. logged (CallUnmountDevice i) (UnmountDevice ds i))\<rparr>"

fun isMount :: "call \<Rightarrow> bool" where
  "isMount (CallMountDevice i p l) = True"
| "isMount _ = False"

fun isUnmount :: "call \<Rightarrow> bool" where
  "isUnmount (CallUnmountDevice i) = True"
| "isUnmount _ = False"

fun isChown :: "call \<Rightarrow> bool" where
  "isChown (CallChown p u g) = True"
| "isChown _ = False"


section \<open>pkg/idtools: directories with an owner\<close>

text \<open>
  The tests \<open>err != nil && !os.IsExist(err)\<close> and \<open>err != nil && !os.IsNotExist(err)\<close>
  of the sources: the error that makes the caller return, if any.
\<close>

definition unlessIsExist :: "goerror option \<Rightarrow> goerror option" where
  "unlessIsExist e =
     (case e of None \<Rightarrow> None | Some err \<Rightarrow> if \<not> IsExist err then Some err else None)"

definition unlessIsNotExist :: "goerror option \<Rightarrow> goerror option" where
  "unlessIsNotExist e =
     (case e of None \<Rightarrow> None | Some err \<Rightarrow> if \<not> IsNotExist err then Some err else None)"

definition mkdirAs ::
  "'w OS \<Rightarrow> string \<Rightarrow> FileMode \<Rightarrow> goint \<Rightarrow> goint \<Rightarrow> bool \<Rightarrow> 'w \<Rightarrow> goerror option \<times> 'w" where
  "mkdirAs sys path mode ownerUID ownerGID mkAll w =
     (case (if mkAll then MkdirAll sys path mode w else Mkdir sys path mode w) of
        (e, w1) \<Rightarrow>
          (case unlessIsExist e of
             Some err \<Rightarrow> (Some err, w1)
           | None \<Rightarrow> Chown sys path ownerUID ownerGID w1))"

definition MkdirAllAs ::
  "'w OS \<Rightarrow> string \<Rightarrow> FileMode \<Rightarrow> goint \<Rightarrow> goint \<Rightarrow> 'w \<Rightarrow> goerror option \<times> 'w" where
  "MkdirAllAs sys path mode ownerUID ownerGID = mkdirAs sys path mode ownerUID ownerGID True"

definition MkdirAs ::
  "'w OS \<Rightarrow> string \<Rightarrow> FileMode \<Rightarrow> goint \<Rightarrow> goint \<Rightarrow> 'w \<Rightarrow> goerror option \<times> 'w" where
  "MkdirAs sys path mode ownerUID ownerGID = mkdirAs sys path mode ownerUID ownerGID False"

text \<open>The calls that a run of \<open>mkdirAs\<close> makes from the state \<open>w\<close>.\<close>

definition mkdirAs_calls ::
  "'w OS \<Rightarrow> string \<Rightarrow> FileMode \<Rightarrow> goint \<Rightarrow> goint \<Rightarrow> bool \<Rightarrow> 'w \<Rightarrow> call list" where
  "mkdirAs_calls sys path mode ownerUID ownerGID mkAll w =
     (if mkAll then
        (if unlessIsExist (fst (MkdirAll sys path mode w)) = None
         then [CallMkdirAll path mode, CallChown path ownerUID ownerGID]
         else [CallMkdirAll path mode])
      else
        (if unlessIsExist (fst (Mkdir sys path mode w)) = None
         then [CallMkdir path mode, CallChown path ownerUID ownerGID]
         else [CallMkdir path mode]))"

section \<open>daemon/graphdriver/devmapper: the driver\<close>

text \<open>
  \<open>Driver\<close> embeds the \<open>DeviceSet\<close> and keeps the home directory and the two ID-map
  tables. The permission bits \<open>0755\<close> and \<open>0600\<close> are written in decimal (493, 384).
  \<open>Put\<close> also logs the error it returns, which changes nothing on the host.
\<close>

record 'w Driver =
  DeviceSet :: "'w DeviceSet"
  home :: string
  uidMaps :: "IDMap list option"
  gidMaps :: "IDMap list option"

definition Driver_Create :: "'w Driver \<Rightarrow> string \<Rightarrow> string \<Rightarrow> 'w \<Rightarrow> goerror option \<times> 'w" where
  "Driver_Create d ident parent w = AddDevice (DeviceSet d) ident parent w"

definition Driver_Remove :: "'w OS \<Rightarrow> 'w Driver \<Rightarrow> string \<Rightarrow> 'w \<Rightarrow> goerror option \<times> 'w" where
  "Driver_Remove sys d ident w =
     (case HasDevice (DeviceSet d) ident w of
        (False, w1) \<Rightarrow> (None, w1)
      | (True, w1) \<Rightarrow>
          (case DeleteDevice (DeviceSet d) ident w1 of
             (Some err, w2) \<Rightarrow> (Some err, w2)
           | (None, w2) \<Rightarrow>
               (let mp = Join [home d, ''mnt'', ident] in
                case RemoveAll sys mp w2 of
                  (e, w3) \<Rightarrow>
                    (case unlessIsNotExist e of
                       Some err \<Rightarrow> (Some err, w3)
                     | None \<Rightarrow> (None, w3)))))"

definition Driver_Get ::
  "'w OS \<Rightarrow> 'w Driver \<Rightarrow> string \<Rightarrow> string \<Rightarrow> 'w \<Rightarrow> (goerror + string) \<times> 'w" where
  "Driver_Get sys d ident mountLabel w =
     (let mp = Join [home d, ''mnt'', ident] in
      case GetRootUIDGID (uidMaps d) (gidMaps d) of
        Inl err \<Rightarrow> (Inl err, w)
      | Inr (uid, gid) \<Rightarrow>
     (case MkdirAllAs sys (Join [home d, ''mnt'']) 493 uid gid w of (e1, w1) \<Rightarrow>
      case unlessIsExist e1 of
        Some err \<Rightarrow> (Inl err, w1)
      | None \<Rightarrow>
     (case MkdirAs sys mp 493 uid gid w1 of (e2, w2) \<Rightarrow>
      case unlessIsExist e2 of
        Some err \<Rightarrow> (Inl err, w2)
      | None \<Rightarrow>
     (case MountDevice (DeviceSet d) ident mp mountLabel w2 of
        (Some err, w3) \<Rightarrow> (Inl err, w3)
      | (None, w3) \<Rightarrow>
     (let rootFs = Join [mp, ''rootfs''] in
      case MkdirAllAs sys rootFs 493 uid gid w3 of (e4, w4) \<Rightarrow>
      case unlessIsExist e4 of
        Some err \<Rightarrow>
          (case UnmountDevice (DeviceSet d) ident w4 of (e5, w5) \<Rightarrow> (Inl err, w5))
      | None \<Rightarrow>
     (let idFile = Join [mp, ''id''] in
      case Stat sys idFile w4 of
        (Some err, w5) \<Rightarrow>
          if IsNotExist err then
            (case WriteFile sys idFile ident 384 w5 of
               (Some err, w6) \<Rightarrow>
                 (case UnmountDevice (DeviceSet d) ident w6 of (e7, w7) \<Rightarrow> (Inl err, w7))
             | (None, w6) \<Rightarrow> (Inr rootFs, w6))
          else (Inr rootFs, w5)
      | (None, w5) \<Rightarrow> (Inr rootFs, w5)))))))"

definition Driver_Put :: "'w Driver \<Rightarrow> string \<Rightarrow> 'w \<Rightarrow> goerror option \<times> 'w" where
  "Driver_Put d ident w = UnmountDevice (DeviceSet d) ident w"

definition Driver_Exists :: "'w Driver \<Rightarrow> string \<Rightarrow> 'w \<Rightarrow> bool \<times> 'w" where
  "Driver_Exists d ident w = HasDevice (DeviceSet d) ident w"

text \<open>The driver over the logging device set.\<close>

definition loggedDriver :: "'w Driver \<Rightarrow> ('w \<times> call list) Driver" where
  "loggedDriver d =
     \<lparr>DeviceSet = loggedDeviceSet (DeviceSet d), home = home d,
      uidMaps = uidMaps d, gidMaps = gidMaps d\<rparr>"

subsection \<open>A small host for examples\<close>

text \<open>
  A host without state whose calls all succeed, but for the results given: what
  \<open>os.Stat\<close>, \<open>ioutil.WriteFile\<close> and \<open>os.RemoveAll\<close> return, and whether the device
  set has the device.
\<close>

definition exampleOS :: "goerror option \<Rightarrow> goerror option \<Rightarrow> goerror option \<Rightarrow> unit OS" where
  "exampleOS statErr writeErr removeErr =
     \<lparr>Stat = (\<lambda>p w. (statErr, w)),
      Mkdir = (\<lambda>p m w. (None, w)),
      MkdirAll = (\<lambda>p m w. (None, w)),
      Chown = (\<lambda>p u g w. (None, w)),
      Chmod = (\<lambda>p m w. (None, w)),
      Rename = (\<lambda>p q w. (None, w)),
      ReadDir = (\<lambda>p w. (Inr [], w)),
      RemoveAll = (\<lambda>p w. (removeErr, w)),
      WriteFile = (\<lambda>p d m w. (writeErr, w))\<rparr>"

definition exampleDriver :: "bool \<Rightarrow> unit Driver" where
  "exampleDriver has =
     \<lparr>DeviceSet =
        \<lparr>AddDevice = (\<lambda>i p w. (None, w)),
         DeleteDevice = (\<lambda>i w. (None, w)),
         HasDevice = (\<lambda>i w. (has, w)),
         MountDevice = (\<lambda>i p l w. (None, w)),
         UnmountDevice = (\<lambda>i w. (None, w))\<rparr>,
      home = ''/var/lib/docker/0.0/devicemapper'',
      uidMaps = None, gidMaps = None\<rparr>"

text \<open>
  The same host, where \<open>os.Stat\<close> finds nothing, but \<open>os.Chown\<close> fails on one path.
\<close>

definition exampleOS_chownFails :: "string \<Rightarrow> unit OS" where
  "exampleOS_chownFails bad =
     (exampleOS (Some ErrNotExist) None None)
       \<lparr>Chown := (\<lambda>p u g w.
          (if p = bad then Some (ErrOther ''operation not permitted'') else None, w))\<rparr>"

section \<open>pkg/directory and the daemon root\<close>

subsection \<open>MoveDirToSubdir\<close>

text \<open>
  \<open>MoveDirToSubdir\<close> reads the names of the entries of \<open>oldpath\<close> once and renames every
  entry but the one called \<open>subdir\<close> into \<open>oldpath/subdir\<close>, in the order of the
  listing; the first error ends the loop.
\<close>

fun MoveDirToSubdir_loop ::
  "'w OS \<Rightarrow> string \<Rightarrow> string \<Rightarrow> string list \<Rightarrow> 'w \<Rightarrow> goerror option \<times> 'w" where
  "MoveDirToSubdir_loop sys oldpath subdir [] w = (None, w)"
| "MoveDirToSubdir_loop sys oldpath subdir (name # infos) w =
     (if name \<noteq> subdir then
        (case Rename sys (Join [oldpath, name]) (Join [oldpath, subdir, name]) w of
           (Some err, w1) \<Rightarrow> (Some err, w1)
         | (None, w1) \<Rightarrow> MoveDirToSubdir_loop sys oldpath subdir infos w1)
      else MoveDirToSubdir_loop sys oldpath subdir infos w)"

definition MoveDirToSubdir ::
  "'w OS \<Rightarrow> string \<Rightarrow> string \<Rightarrow> 'w \<Rightarrow> goerror option \<times> 'w" where
  "MoveDirToSubdir sys oldpath subdir w =
     (case ReadDir sys oldpath w of
        (Inl err, w1) \<Rightarrow> (Some err, w1)
      | (Inr infos, w1) \<Rightarrow> MoveDirToSubdir_loop sys oldpath subdir infos w1)"

subsection \<open>Sprintf("%d.%d")\<close>

text \<open>The verb \<open>%d\<close> prints a Go \<open>int\<close> in base 10, with a minus sign if it is negative.\<close>

fun formatNat :: "nat \<Rightarrow> string" where
  "formatNat n =
     (if n < 10 then [''0123456789'' ! n]
      else formatNat (n div 10) @ [''0123456789'' ! (n mod 10)])"

declare formatNat.simps [simp del]

definition formatInt :: "goint \<Rightarrow> string" where
  "formatInt i =
     (if sint i < 0 then CHR ''-'' # formatNat (nat (- sint i)) else formatNat (nat (sint i)))"

definition Sprintf_d_d :: "goint \<Rightarrow> goint \<Rightarrow> string" where
  "Sprintf_d_d a b = formatInt a @ ''.'' @ formatInt b"

subsection \<open>setupDaemonRoot\<close>

text \<open>
  \<open>setupDaemonRoot\<close> writes \<open>config.Root\<close> through the pointer it is given, so the
  model returns the configuration beside the error; \<open>config.Root\<close> is assigned before
  the last \<open>MkdirAllAs\<close>, whatever that call returns. The permission bits \<open>0755\<close> and
  \<open>0700\<close> are written in decimal (493, 448). On Linux \<open>filepath.Join\<close> is \<open>path.Join\<close>.
\<close>

definition setupDaemonRoot ::
  "'w OS \<Rightarrow> Config \<Rightarrow> string \<Rightarrow> goint \<Rightarrow> goint \<Rightarrow> 'w \<Rightarrow> goerror option \<times> Config \<times> 'w" where
  "setupDaemonRoot sys config rootDir rootUID rootGID w =
     (let nsRoot = ''0.0'' in
      case
        (case Stat sys rootDir w of
           (None, w1) \<Rightarrow>
             (case Stat sys (Join [rootDir, nsRoot]) w1 of
                (Some err, w2) \<Rightarrow>
                  if IsNotExist err then
                    (case Mkdir sys (Join [rootDir, nsRoot]) 448 w2 of
                       (Some err, w3) \<Rightarrow>
                         (Some (ErrCreateSubroot (Join [rootDir, nsRoot]) err), w3)
                     | (None, w3) \<Rightarrow>
                         (case MoveDirToSubdir sys rootDir nsRoot w3 of
                            (Some err, w4) \<Rightarrow> (Some (ErrMigrateRoot rootDir err), w4)
                          | (None, w4) \<Rightarrow> Chmod sys rootDir 493 w4))
                  else (None, w2)
              | (None, w2) \<Rightarrow> (None, w2))
         | (Some err, w1) \<Rightarrow>
             if IsNotExist err then
               (case MkdirAll sys rootDir 493 w1 of
                  (Some err, w2) \<Rightarrow> (Some err, w2)
                | (None, w2) \<Rightarrow> Mkdir sys (Join [rootDir, nsRoot]) 448 w2)
             else (None, w1)) of
        (Some err, w') \<Rightarrow> (Some err, config, w')
      | (None, w') \<Rightarrow>
          (let nsRoot' = (if RemappedRoot config \<noteq> '''' then Sprintf_d_d rootUID rootGID
                          else nsRoot);
               config' = config\<lparr>Root := Join [rootDir, nsRoot']\<rparr>
           in case MkdirAllAs sys (Root config') 448 rootUID rootGID w' of
                (Some err, w'') \<Rightarrow> (Some (ErrCreateRoot (Root config') err), config', w'')
              | (None, w'') \<Rightarrow> (None, config', w'')))"


subsection \<open>A disk for examples\<close>

text \<open>
  A host whose state is the list of the paths that exist, as text; owners, permission
  bits and contents are not kept. \<open>os.Stat\<close>, \<open>os.Chown\<close> and \<open>os.Chmod\<close> find a path
  or return the does-not-exist error, \<open>os.Mkdir\<close> refuses a path that is there or
  whose parent is missing, \<open>os.MkdirAll\<close> makes the path and the missing directories
  above it, \<open>os.Rename\<close> moves a path with everything below it, and
  \<open>ioutil.ReadDir\<close> returns the sorted names directly below a path.
\<close>

definition parentOf :: "string \<Rightarrow> string" where
  "parentOf p = rev (tl (dropWhile (\<lambda>c. c \<noteq> CHR ''/'') (rev p)))"

definition dirsTo :: "string \<Rightarrow> string list" where
  "dirsTo p =
     filter (\<lambda>q. q \<noteq> [])
       (map (\<lambda>i. take i p)
          (filter (\<lambda>i. i = length p \<or> p ! i = CHR ''/'') [0..<Suc (length p)]))"

definition isBelow :: "string \<Rightarrow> string \<Rightarrow> bool" where
  "isBelow p x \<longleftrightarrow> take (length p + 1) x = p @ ''/''"

definition exampleDiskOS :: "string list OS" where
  "exampleDiskOS =
     \<lparr>Stat = (\<lambda>p w. (if p \<in> set w then None else Some ErrNotExist, w)),
      Mkdir = (\<lambda>p m w.
        if p \<in> set w then (Some ErrExist, w)
        else if parentOf p \<noteq> [] \<and> parentOf p \<notin> set w then (Some ErrNotExist, w)
        else (None, w @ [p])),
      MkdirAll = (\<lambda>p m w. (None, w @ filter (\<lambda>q. q \<notin> set w) (dirsTo p))),
      Chown = (\<lambda>p u g w. (if p \<in> set w then None else Some ErrNotExist, w)),
      Chmod = (\<lambda>p m w. (if p \<in> set w then None else Some ErrNotExist, w)),
      Rename = (\<lambda>a b w.
        if a \<in> set w then
          (None, map (\<lambda>x. if x = a then b
                           else if isBelow a x then b @ drop (length a) x else x) w)
        else (Some ErrNotExist, w)),
      ReadDir = (\<lambda>p w.
        if p \<in> set w then
          (Inr (sort (map (drop (length p + 1))
             (filter (\<lambda>x. isBelow p x \<and> CHR ''/'' \<notin> set (drop (length p + 1) x)) w))), w)
        else (Inl ErrNotExist, w)),
      RemoveAll = (\<lambda>p w. (None, filter (\<lambda>x. x \<noteq> p \<and> \<not> isBelow p x) w)),
      WriteFile = (\<lambda>p d m w. (None, if p \<in> set w then w else w @ [p]))\<rparr>"

text \<open>
  A daemon root \<open>/var/lib/docker\<close> from before user namespaces, with the two entries
  \<open>a\<close> and \<open>b\<close>, and \<open>c\<close> inside \<open>b\<close>.
\<close>

definition exampleFlatRoot :: "string list" where
  "exampleFlatRoot =
     [''/var'', ''/var/lib'', ''/var/lib/docker'', ''/var/lib/docker/b'', ''/var/lib/docker/a'',
      ''/var/lib/docker/b/c'']"

section \<open>Signed 64-bit arithmetic\<close>

lemma sint_bounds64:
  fixes a :: goint
  shows "- 9223372036854775808 \<le> sint a" "sint a < 9223372036854775808"
  using sint_ge [of a] sint_lt [of a] by simp_all

lemma sint_eq_iff:
  fixes a b :: goint
  shows "sint a = sint b \<longleftrightarrow> a = b"
  by (auto intro: signed_word_eqI)

lemma sint_add_wrap:
  fixes a b :: goint
  shows "sint (a + b) = signed_take_bit 63 (sint a + sint b)"
  by (simp add: sint_word_ariths)

lemma sint_sub_wrap:
  fixes a b :: goint
  shows "sint (a - b) = signed_take_bit 63 (sint a - sint b)"
  by (simp add: sint_word_ariths)

lemma stb63_id:
  "- 9223372036854775808 \<le> k \<Longrightarrow> k < 9223372036854775808 \<Longrightarrow>
   signed_take_bit 63 (k::int) = k"
  by (rule signed_take_bit_int_eq_self) simp_all

lemma stb63_shift:
  "signed_take_bit 63 (k::int) = signed_take_bit 63 (k - 18446744073709551616)"
proof -
  have "(k - 18446744073709551616) mod 18446744073709551616 = k mod 18446744073709551616"
    by (rule minus_mod_self2)
  then have "take_bit (Suc 63) k = take_bit (Suc 63) (k - 18446744073709551616)"
    by (simp add: take_bit_eq_mod)
  then show ?thesis
    by (simp only: signed_take_bit_eq_iff_take_bit_eq)
qed

lemma stb63_over:
  assumes "9223372036854775808 \<le> k" "k < 27670116110564327424"
  shows "signed_take_bit 63 (k::int) = k - 18446744073709551616"
proof -
  have "signed_take_bit 63 (k - 18446744073709551616) = k - 18446744073709551616"
    using assms by (intro signed_take_bit_int_eq_self) simp_all
  then show ?thesis using stb63_shift [of k] by simp
qed

lemma sint_last:
  fixes a b :: goint
  shows "sint (a + b - 1) = signed_take_bit 63 (sint a + sint b - 1)"
proof -
  have "sint (a + b - 1) =
      signed_take_bit 63 (signed_take_bit 63 (sint a + sint b) - signed_take_bit 63 1)"
    by (simp add: sint_word_ariths)
  then show ?thesis
    by (simp only: signed_take_bit_diff)
qed

lemma sint_pred:
  fixes a :: goint
  assumes "1 \<le>s a"
  shows "sint (a - 1) = sint a - 1"
  using assms sint_bounds64 [of a]
  by (simp add: sint_sub_wrap stb63_id word_sle_eq)

lemma sint_succ:
  fixes a :: goint
  assumes "sint a < 9223372036854775807"
  shows "sint (a + 1) = sint a + 1"
  using assms sint_bounds64 [of a]
  by (simp add: sint_add_wrap stb63_id)

lemma sint_MaxInt32: "sint MaxInt32 = 2147483647"
  by (simp add: MaxInt32_def)

lemma sle_zero_both:
  fixes c :: goint
  shows "(0 \<le>s c \<and> c \<le>s 0) \<longleftrightarrow> c = 0"
  using signed.order.antisym by auto

lemma not_sle_pred:
  fixes a :: goint
  assumes "1 \<le>s a"
  shows "\<not> a \<le>s a - 1"
  using assms by (simp add: word_sle_eq sint_pred)

lemma succ_sle_imp:
  fixes a c :: goint
  assumes "a + 1 \<le>s c" "c \<le>s MaxInt32"
  shows "c \<noteq> a"
proof
  assume "c = a"
  with assms have a: "a + 1 \<le>s a" "sint a \<le> 2147483647"
    by (simp_all add: word_sle_eq sint_MaxInt32)
  then have "sint (a + 1) = sint a + 1"
    by (intro sint_succ) simp
  with a show False by (simp add: word_sle_eq)
qed

text \<open>
  The test of the loops, \<open>a \<le> c \<and> c \<le> a + b - 1\<close> in wrapping arithmetic, accepts
  only ids of the block \<open>[a, a + b)\<close> unless the last id underflows.
\<close>

lemma range_test_sound:
  fixes a b c :: goint
  assumes "a \<le>s c" "c \<le>s a + b - 1" "- 9223372036854775808 \<le> sint a + sint b - 1"
  shows "sint c < sint a + sint b"
proof (cases "sint a + sint b - 1 < 9223372036854775808")
  case True
  then have "sint (a + b - 1) = sint a + sint b - 1"
    using assms(3) by (simp add: sint_last stb63_id)
  then show ?thesis using assms(2) by (simp add: word_sle_eq)
next
  case False
  then have "sint (a + b - 1) = sint a + sint b - 1 - 18446744073709551616"
    using sint_bounds64 [of a] sint_bounds64 [of b] by (simp add: sint_last stb63_over)
  then show ?thesis
    using assms(1,2) sint_bounds64 [of a] sint_bounds64 [of b] by (simp add: word_sle_eq)
qed

section \<open>The ID-map table: translation\<close>

lemma TranslateIDToHost_loop_unmapped:
  assumes "\<forall>m\<in>set ms. lastIDsNotBelowMin m \<and> \<not> inContainerRange m c"
  shows "TranslateIDToHost_loop c ms = Inl (ErrContainerUnmappable c)"
  using assms
proof (induction ms)
  case Nil
  then show ?case by simp
next
  case (Cons m ms)
  have "\<not> (ContainerID m \<le>s c \<and> c \<le>s ContainerID m + Size m - 1)"
  proof
    assume t: "ContainerID m \<le>s c \<and> c \<le>s ContainerID m + Size m - 1"
    from Cons.prems have "- 9223372036854775808 \<le> sint (ContainerID m) + sint (Size m) - 1"
      by (simp add: lastIDsNotBelowMin_def)
    with t have "sint c < sint (ContainerID m) + sint (Size m)"
      by (intro range_test_sound) simp_all
    with t Cons.prems show False
      by (simp add: inContainerRange_def word_sle_eq)
  qed
  with Cons show ?case by simp
qed

lemma TranslateIDToContainer_loop_unmapped:
  assumes "\<forall>m\<in>set ms. lastIDsNotBelowMin m \<and> \<not> inHostRange m h"
  shows "TranslateIDToContainer_loop h ms = Inl (ErrHostUnmappable h)"
  using assms
proof (induction ms)
  case Nil
  then show ?case by simp
next
  case (Cons m ms)
  have "\<not> (HostID m \<le>s h \<and> h \<le>s HostID m + Size m - 1)"
  proof
    assume t: "HostID m \<le>s h \<and> h \<le>s HostID m + Size m - 1"
    from Cons.prems have "- 9223372036854775808 \<le> sint (HostID m) + sint (Size m) - 1"
      by (simp add: lastIDsNotBelowMin_def)
    with t have "sint h < sint (HostID m) + sint (Size m)"
      by (intro range_test_sound) simp_all
    with t Cons.prems show False
      by (simp add: inHostRange_def word_sle_eq)
  qed
  with Cons show ?case by simp
qed

text \<open>
  C3, as the code has it. A nil table is the identity in both directions. A table that
  is not nil, the empty one included, never defaults to the identity: an id in no range
  of it fails with the unmappable-id error. (The ranges are read as blocks of integers;
  the last id of each must not underflow the 64-bit \<open>int\<close>, which holds whenever
  \<open>Size \<ge> 1\<close>.)
\<close>

theorem Translate_nil_identity_else_unmappable:
  "TranslateIDToHost i None = Inr i \<and>
   TranslateIDToContainer i None = Inr i \<and>
   TranslateIDToHost i (Some []) = Inl (ErrContainerUnmappable i) \<and>
   TranslateIDToContainer i (Some []) = Inl (ErrHostUnmappable i) \<and>
   ((\<forall>m\<in>set T. lastIDsNotBelowMin m \<and> \<not> inContainerRange m i) \<longrightarrow>
      TranslateIDToHost i (Some T) = Inl (ErrContainerUnmappable i)) \<and>
   ((\<forall>m\<in>set T. lastIDsNotBelowMin m \<and> \<not> inHostRange m i) \<longrightarrow>
      TranslateIDToContainer i (Some T) = Inl (ErrHostUnmappable i))"
  by (simp add: TranslateIDToHost_def TranslateIDToContainer_def
      TranslateIDToHost_loop_unmapped TranslateIDToContainer_loop_unmapped)

theorem Translate_nil_identity_else_unmappable_witness:
  "TranslateIDToHost 5 None = Inr 5 \<and>
   TranslateIDToContainer 5 None = Inr 5 \<and>
   TranslateIDToHost 5 (Some []) = Inl (ErrContainerUnmappable 5) \<and>
   TranslateIDToContainer 5 (Some []) = Inl (ErrHostUnmappable 5) \<and>
   lastIDsNotBelowMin \<lparr>ContainerID = 10, HostID = 100, Size = 3\<rparr> \<and>
   \<not> inContainerRange \<lparr>ContainerID = 10, HostID = 100, Size = 3\<rparr> 5 \<and>
   \<not> inHostRange \<lparr>ContainerID = 10, HostID = 100, Size = 3\<rparr> 5 \<and>
   TranslateIDToHost 5 (Some [\<lparr>ContainerID = 10, HostID = 100, Size = 3\<rparr>]) =
     Inl (ErrContainerUnmappable 5) \<and>
   TranslateIDToContainer 5 (Some [\<lparr>ContainerID = 10, HostID = 100, Size = 3\<rparr>]) =
     Inl (ErrHostUnmappable 5)"
  using Translate_nil_identity_else_unmappable
    [of 5 "[\<lparr>ContainerID = 10, HostID = 100, Size = 3\<rparr>]"]
  by (simp add: lastIDsNotBelowMin_def inContainerRange_def inHostRange_def)

text \<open>
  C3 as stated fails on the empty table that is not nil: \<open>[]IDMap{}\<close> passes the
  \<open>idMap == nil\<close> test, the loop runs zero times, and both translations return the
  error instead of the id.
\<close>

theorem Translate_empty_table_counterexample:
  "TranslateIDToHost 5 (Some []) \<noteq> Inr 5 \<and> TranslateIDToContainer 5 (Some []) \<noteq> Inr 5"
  by (simp add: TranslateIDToHost_def TranslateIDToContainer_def)

section \<open>The ID-map table: the root remap\<close>

lemma TranslateIDToHost_createIDMap:
  "TranslateIDToHost c (Some (createIDMap ident)) =
     (if c = 0 then Inr ident
      else if 1 \<le>s c \<and> c \<le>s ident - 1 then Inr c
      else if ident + 1 \<le>s c \<and> c \<le>s MaxInt32 then Inr c
      else Inl (ErrContainerUnmappable c))"
  by (auto simp add: TranslateIDToHost_def createIDMap_def)

lemma TranslateIDToContainer_createIDMap:
  "TranslateIDToContainer h (Some (createIDMap ident)) =
     (if h = ident then Inr 0
      else if 1 \<le>s h \<and> h \<le>s ident - 1 then Inr h
      else if ident + 1 \<le>s h \<and> h \<le>s MaxInt32 then Inr h
      else Inl (ErrHostUnmappable h))"
  by (auto simp add: TranslateIDToContainer_def createIDMap_def)

lemma one_sle_nonzero:
  fixes c :: goint
  assumes "1 \<le>s c"
  shows "c \<noteq> 0"
  using assms by (auto simp add: word_sle_eq)

lemma createIDMap_identity_int32:
  assumes "1 \<le>s ident" "1 \<le>s c" "c \<le>s MaxInt32" "c \<noteq> ident"
  shows "TranslateIDToHost c (Some (createIDMap ident)) = Inr c"
proof -
  from assms(2) have nz: "c \<noteq> 0" by (rule one_sle_nonzero)
  show ?thesis
  proof (cases "sint c < sint ident")
    case True
    then have "c \<le>s ident - 1"
      using assms(1) by (simp add: word_sle_eq sint_pred)
    with assms(2) nz show ?thesis
      by (simp add: TranslateIDToHost_createIDMap)
  next
    case False
    with assms(4) have lt: "sint ident < sint c"
      using sint_eq_iff [of c ident] by arith
    with assms(3) have "sint ident < 9223372036854775807"
      by (simp add: word_sle_eq sint_MaxInt32)
    then have "sint (ident + 1) = sint ident + 1"
      by (rule sint_succ)
    with lt have "ident + 1 \<le>s c"
      by (simp add: word_sle_eq)
    with assms(3) nz show ?thesis
      by (simp add: TranslateIDToHost_createIDMap)
  qed
qed

lemma createIDMap_roundtrip:
  assumes "1 \<le>s ident" "TranslateIDToHost c (Some (createIDMap ident)) = Inr h"
  shows "TranslateIDToContainer h (Some (createIDMap ident)) = Inr c"
proof -
  consider (root) "c = 0" "h = ident"
    | (low) "c \<noteq> 0" "1 \<le>s c" "c \<le>s ident - 1" "h = c"
    | (high) "c \<noteq> 0" "ident + 1 \<le>s c" "c \<le>s MaxInt32" "h = c"
    using assms(2) by (auto simp add: TranslateIDToHost_createIDMap split: if_splits)
  then show ?thesis
  proof cases
    case root
    then show ?thesis by (simp add: TranslateIDToContainer_createIDMap)
  next
    case low
    with assms(1) have "c \<noteq> ident" using not_sle_pred by blast
    with low show ?thesis by (simp add: TranslateIDToContainer_createIDMap)
  next
    case high
    then have "c \<noteq> ident" using succ_sle_imp by blast
    with high show ?thesis by (simp add: TranslateIDToContainer_createIDMap)
  qed
qed

lemma CreateIDMapsForRoot_ok:
  assumes "1 \<le>s uid" "1 \<le>s gid"
  shows "CreateIDMapsForRoot uid gid = Inr (Some (createIDMap uid), Some (createIDMap gid))"
  using assms by (simp add: CreateIDMapsForRoot_def signed.not_less)

lemma createIDMap_beyond_int32:
  assumes "1 \<le>s ident" "MaxInt32 <s c" "ident <s c"
  shows "TranslateIDToHost c (Some (createIDMap ident)) = Inl (ErrContainerUnmappable c)"
proof -
  from assms(2) have "2147483647 < sint c"
    by (simp add: word_sless_alt sint_MaxInt32)
  then have nz: "c \<noteq> 0" by auto
  have "sint (ident - 1) = sint ident - 1"
    using assms(1) by (simp add: word_sle_eq sint_pred)
  with assms(3) have a: "\<not> c \<le>s ident - 1"
    by (simp add: word_sle_eq word_sless_alt)
  from assms(2) have b: "\<not> c \<le>s MaxInt32"
    by (simp add: word_sle_eq word_sless_alt)
  from nz a b show ?thesis
    by (simp add: TranslateIDToHost_createIDMap)
qed

text \<open>
  C1, as the code has it. The third range has size \<open>math.MaxInt32 - id\<close>, not
  \<open>MAXUINT32 - id\<close>: the table built for an id \<open>\<ge> 1\<close> is exactly the three ranges
  below, container 0 translates to the id, every other container id from 1 to
  \<open>2^31 - 1\<close> except the id itself translates to itself, and a container id above both
  \<open>2^31 - 1\<close> and the id has no mapping.
\<close>

theorem CreateIDMapsForRoot_covers_int32:
  assumes "1 \<le>s uid" "1 \<le>s gid"
  shows "CreateIDMapsForRoot uid gid =
      Inr (Some [\<lparr>ContainerID = 0, HostID = uid, Size = 1\<rparr>,
                 \<lparr>ContainerID = 1, HostID = 1, Size = uid - 1\<rparr>,
                 \<lparr>ContainerID = uid + 1, HostID = uid + 1, Size = MaxInt32 - uid\<rparr>],
           Some [\<lparr>ContainerID = 0, HostID = gid, Size = 1\<rparr>,
                 \<lparr>ContainerID = 1, HostID = 1, Size = gid - 1\<rparr>,
                 \<lparr>ContainerID = gid + 1, HostID = gid + 1, Size = MaxInt32 - gid\<rparr>]) \<and>
    TranslateIDToHost 0 (Some (createIDMap uid)) = Inr uid \<and>
    TranslateIDToHost 0 (Some (createIDMap gid)) = Inr gid \<and>
    (\<forall>c. 1 \<le>s c \<and> c \<le>s MaxInt32 \<and> c \<noteq> uid \<longrightarrow>
       TranslateIDToHost c (Some (createIDMap uid)) = Inr c) \<and>
    (\<forall>c. 1 \<le>s c \<and> c \<le>s MaxInt32 \<and> c \<noteq> gid \<longrightarrow>
       TranslateIDToHost c (Some (createIDMap gid)) = Inr c) \<and>
    (\<forall>c. MaxInt32 <s c \<and> uid <s c \<longrightarrow>
       TranslateIDToHost c (Some (createIDMap uid)) = Inl (ErrContainerUnmappable c)) \<and>
    (\<forall>c. MaxInt32 <s c \<and> gid <s c \<longrightarrow>
       TranslateIDToHost c (Some (createIDMap gid)) = Inl (ErrContainerUnmappable c))"
proof -
  have "CreateIDMapsForRoot uid gid = Inr (Some (createIDMap uid), Some (createIDMap gid))"
    using assms by (rule CreateIDMapsForRoot_ok)
  moreover have "TranslateIDToHost 0 (Some (createIDMap uid)) = Inr uid"
    and "TranslateIDToHost 0 (Some (createIDMap gid)) = Inr gid"
    by (simp_all add: TranslateIDToHost_createIDMap)
  ultimately show ?thesis
    using assms
    by (simp add: createIDMap_identity_int32 createIDMap_beyond_int32) (simp add: createIDMap_def)
qed

theorem CreateIDMapsForRoot_covers_int32_witness:
  "1 \<le>s (1000::goint) \<and> 1 \<le>s (2000::goint) \<and>
   CreateIDMapsForRoot 1000 2000 =
      Inr (Some [\<lparr>ContainerID = 0, HostID = 1000, Size = 1\<rparr>,
                 \<lparr>ContainerID = 1, HostID = 1, Size = 999\<rparr>,
                 \<lparr>ContainerID = 1001, HostID = 1001, Size = 2147482647\<rparr>],
           Some [\<lparr>ContainerID = 0, HostID = 2000, Size = 1\<rparr>,
                 \<lparr>ContainerID = 1, HostID = 1, Size = 1999\<rparr>,
                 \<lparr>ContainerID = 2001, HostID = 2001, Size = 2147481647\<rparr>]) \<and>
   TranslateIDToHost 0 (Some (createIDMap 1000)) = Inr 1000 \<and>
   TranslateIDToHost 0 (Some (createIDMap 2000)) = Inr 2000 \<and>
   TranslateIDToHost 2147483647 (Some (createIDMap 1000)) = Inr 2147483647 \<and>
   TranslateIDToHost 999 (Some (createIDMap 2000)) = Inr 999 \<and>
   MaxInt32 <s (2147483648::goint) \<and> (1000::goint) <s 2147483648 \<and>
   TranslateIDToHost 2147483648 (Some (createIDMap 1000)) =
     Inl (ErrContainerUnmappable 2147483648) \<and>
   MaxInt32 <s (4294967295::goint) \<and> (2000::goint) <s 4294967295 \<and>
   TranslateIDToHost 4294967295 (Some (createIDMap 2000)) =
     Inl (ErrContainerUnmappable 4294967295)"
proof -
  have h: "1 \<le>s (1000::goint)" "1 \<le>s (2000::goint)"
    by (simp_all add: word_sle_eq)
  have c: "1 \<le>s (2147483647::goint) \<and> 2147483647 \<le>s MaxInt32 \<and> (2147483647::goint) \<noteq> 1000"
    "1 \<le>s (999::goint) \<and> 999 \<le>s MaxInt32 \<and> (999::goint) \<noteq> 2000"
    by (simp_all add: word_sle_eq MaxInt32_def)
  have d: "MaxInt32 <s (2147483648::goint) \<and> (1000::goint) <s 2147483648"
    "MaxInt32 <s (4294967295::goint) \<and> (2000::goint) <s 4294967295"
    by (simp_all add: word_sless_alt MaxInt32_def)
  show ?thesis
    using h c d CreateIDMapsForRoot_covers_int32 [OF h] by (simp add: MaxInt32_def)
qed

text \<open>
  C1 as stated fails: for the id 1000 the third range has 2147482647 ids, not
  \<open>MAXUINT32 - 1000\<close>, and the container id \<open>2^31\<close>, which is inside the 32-bit
  unsigned space, has no mapping.
\<close>

theorem createIDMap_uint32_counterexample:
  "1 \<le>s (1000::goint) \<and>
   Size (createIDMap 1000 ! 2) \<noteq> 4294967295 - 1000 \<and>
   TranslateIDToHost 2147483648 (Some (createIDMap 1000)) =
     Inl (ErrContainerUnmappable 2147483648)"
  by (simp add: TranslateIDToHost_def createIDMap_def MaxInt32_def word_sle_eq)

lemma covered_imp_translates:
  assumes "1 \<le>s ident" "\<exists>m\<in>set (createIDMap ident). inContainerRange m c"
  shows "\<exists>h. TranslateIDToHost c (Some (createIDMap ident)) = Inr h"
proof -
  consider (r0) "inContainerRange \<lparr>ContainerID = 0, HostID = ident, Size = 1\<rparr> c"
    | (r1) "inContainerRange \<lparr>ContainerID = 1, HostID = 1, Size = ident - 1\<rparr> c"
    | (r2) "inContainerRange
        \<lparr>ContainerID = ident + 1, HostID = ident + 1, Size = MaxInt32 - ident\<rparr> c"
    using assms(2) by (auto simp add: createIDMap_def)
  then show ?thesis
  proof cases
    case r0
    then have "sint c = 0" by (simp add: inContainerRange_def)
    then have "c = 0" using sint_eq_iff [of c 0] by simp
    then show ?thesis by (simp add: TranslateIDToHost_createIDMap)
  next
    case r1
    then have "1 \<le>s c \<and> c \<le>s ident - 1"
      using assms(1) by (simp add: inContainerRange_def word_sle_eq sint_pred)
    then show ?thesis by (simp add: TranslateIDToHost_createIDMap)
  next
    case r2
    show ?thesis
    proof (cases "ident = MaxInt64")
      case True
      with r2 have False
        using sint_bounds64 [of c]
        by (simp add: inContainerRange_def MaxInt64_def MaxInt32_def)
      then show ?thesis ..
    next
      case False
      then have "sint ident \<noteq> 9223372036854775807"
        using sint_eq_iff [of ident MaxInt64] by (simp add: MaxInt64_def)
      then have lt: "sint ident < 9223372036854775807"
        using sint_bounds64 [of ident] by arith
      then have s1: "sint (ident + 1) = sint ident + 1" by (rule sint_succ)
      have s2: "sint (MaxInt32 - ident) = 2147483647 - sint ident"
        using assms(1) lt
        by (simp add: sint_sub_wrap stb63_id sint_MaxInt32 word_sle_eq)
      from r2 s1 s2 have "ident + 1 \<le>s c \<and> c \<le>s MaxInt32"
        by (simp add: inContainerRange_def word_sle_eq sint_MaxInt32)
      then show ?thesis by (auto simp add: TranslateIDToHost_createIDMap)
    qed
  qed
qed

text \<open>
  C4. In a table built by \<open>CreateIDMapsForRoot\<close> (for the uid or for the gid), every
  container id that some range covers translates to a host id, and that host id
  translates back to the container id.
\<close>

theorem CreateIDMapsForRoot_roundtrip:
  assumes "CreateIDMapsForRoot uid gid = Inr (Some ut, Some gt)"
    and "T = ut \<or> T = gt"
    and "\<exists>m\<in>set T. inContainerRange m c"
  shows "\<exists>h. TranslateIDToHost c (Some T) = Inr h \<and>
             TranslateIDToContainer h (Some T) = Inr c"
proof -
  from assms(1) have "1 \<le>s uid" "1 \<le>s gid" "ut = createIDMap uid" "gt = createIDMap gid"
    by (auto simp add: CreateIDMapsForRoot_def signed.not_less split: if_splits)
  with assms(2) obtain ident where i: "1 \<le>s ident" and T: "T = createIDMap ident"
    by auto
  from i assms(3) obtain h where h: "TranslateIDToHost c (Some (createIDMap ident)) = Inr h"
    unfolding T using covered_imp_translates by blast
  with i have "TranslateIDToContainer h (Some (createIDMap ident)) = Inr c"
    by (rule createIDMap_roundtrip)
  with h T show ?thesis by simp
qed

theorem CreateIDMapsForRoot_roundtrip_witness:
  "CreateIDMapsForRoot 1000 2000 = Inr (Some (createIDMap 1000), Some (createIDMap 2000)) \<and>
   inContainerRange (createIDMap 1000 ! 0) 0 \<and>
   inContainerRange (createIDMap 2000 ! 2) 2147483647 \<and>
   (\<exists>h. TranslateIDToHost 0 (Some (createIDMap 1000)) = Inr h \<and>
        TranslateIDToContainer h (Some (createIDMap 1000)) = Inr 0) \<and>
   (\<exists>h. TranslateIDToHost 2147483647 (Some (createIDMap 2000)) = Inr h \<and>
        TranslateIDToContainer h (Some (createIDMap 2000)) = Inr 2147483647)"
proof -
  have a: "CreateIDMapsForRoot 1000 2000 =
      Inr (Some (createIDMap 1000), Some (createIDMap 2000))"
    by (simp add: CreateIDMapsForRoot_def word_sless_alt)
  have b: "inContainerRange (createIDMap 1000 ! 0) 0"
    "inContainerRange (createIDMap 2000 ! 2) 2147483647"
    by (simp_all add: createIDMap_def inContainerRange_def MaxInt32_def)
  have c: "\<exists>m\<in>set (createIDMap 1000). inContainerRange m 0"
    "\<exists>m\<in>set (createIDMap 2000). inContainerRange m 2147483647"
    by (simp_all add: createIDMap_def inContainerRange_def MaxInt32_def)
  show ?thesis
    using a b
      CreateIDMapsForRoot_roundtrip [OF a _ c(1)]
      CreateIDMapsForRoot_roundtrip [OF a _ c(2)]
    by simp
qed

text \<open>
  For every uid \<open>\<ge> 1\<close> below the greatest \<open>int\<close>, the table built for it leaves the
  container id equal to the uid, and the host id 0, without a mapping: both translations
  fail with the unmappable-id error.
\<close>

lemma CreateIDMapsForRoot_unmapped_ids:
  assumes "CreateIDMapsForRoot uid gid = Inr (uidTable, gidTable)" "uid \<noteq> MaxInt64"
  shows "TranslateIDToHost uid uidTable = Inl (ErrContainerUnmappable uid) \<and>
         TranslateIDToContainer 0 uidTable = Inl (ErrHostUnmappable 0)"
proof -
  from assms(1) have u: "1 \<le>s uid" and t: "uidTable = Some (createIDMap uid)"
    by (auto simp add: CreateIDMapsForRoot_def signed.not_less split: if_splits)
  from u have nz: "uid \<noteq> 0" by (rule one_sle_nonzero)
  have a: "\<not> uid \<le>s uid - 1" using u by (rule not_sle_pred)
  have b: "\<not> (uid + 1 \<le>s uid \<and> uid \<le>s MaxInt32)" using succ_sle_imp by blast
  have "sint uid \<noteq> 9223372036854775807"
    using assms(2) sint_eq_iff [of uid MaxInt64] by (simp add: MaxInt64_def)
  then have "sint uid < 9223372036854775807"
    using sint_bounds64 [of uid] by arith
  then have "sint (uid + 1) = sint uid + 1" by (rule sint_succ)
  with u have c: "\<not> uid + 1 \<le>s 0" by (simp add: word_sle_eq)
  have d: "\<not> 1 \<le>s (0::goint)" by (simp add: word_sle_eq)
  show ?thesis
    using nz a b c d t
    by (simp add: TranslateIDToHost_createIDMap TranslateIDToContainer_createIDMap)
qed

text \<open>
  C9. The comment on the third range says it maps \<open>id + 1\<close> up to the greatest id, and
  \<open>CreateIDMapsForRoot\<close> rejects only ids below 1. At the greatest \<open>int\<close> the sum
  \<open>id + 1\<close> wraps around to the least \<open>int\<close>: the call succeeds, the third range
  then starts below every id, and the host id 0, which the table of a remapped root is
  to leave without a mapping, translates to the container id 0.
\<close>

theorem CreateIDMapsForRoot_MaxInt64_maps_host_root:
  "CreateIDMapsForRoot 9223372036854775807 1000 =
     Inr (Some (createIDMap 9223372036854775807), Some (createIDMap 1000)) \<and>
   TranslateIDToContainer 0 (Some (createIDMap 9223372036854775807)) = Inr 0"
  by (simp add: CreateIDMapsForRoot_def TranslateIDToContainer_def createIDMap_def
      MaxInt32_def word_sless_alt word_sle_eq)

section \<open>The remapped-root option\<close>

lemma ParseUint_loop_digits:
  "ParseUint_loop s n = Some m \<Longrightarrow> \<forall>c\<in>set s. isDigit c"
  by (induction s arbitrary: n) (auto split: if_splits)

lemma ParseInt32_no_colon:
  assumes "ParseInt32 s = Some A"
  shows "CHR '':'' \<notin> set s"
proof
  assume c: "CHR '':'' \<in> set s"
  have nd: "\<not> isDigit CHR '':''" by (simp add: isDigit_def)
  from assms obtain x r where s: "s = x # r" by (cases s) (auto simp add: ParseInt32_def)
  define s' where "s' = (if x = CHR ''+'' \<or> x = CHR ''-'' then r else s)"
  from assms s obtain un where "ParseUint s' = Some un"
    by (auto simp add: ParseInt32_def s'_def Let_def split: option.splits)
  then have "\<forall>c\<in>set s'. isDigit c"
    by (auto simp add: ParseUint_def split: if_splits dest: ParseUint_loop_digits)
  moreover from c s have "CHR '':'' \<in> set s'"
    by (auto simp add: s'_def)
  ultimately show False using nd by blast
qed

lemma Split_no_sep:
  "sep \<notin> set s \<Longrightarrow> Split s sep = [s]"
  by (induction s) auto

lemma Split_one_sep:
  "sep \<notin> set a \<Longrightarrow> sep \<notin> set b \<Longrightarrow> Split (a @ sep # b) sep = [a, b]"
  by (induction a) (auto simp add: Split_no_sep)

lemma length_Split:
  "length (Split s sep) = Suc (length (filter (\<lambda>c. c = sep) s))"
  by (induction s) (auto split: list.splits)

lemma parseRemappedRoot_too_many:
  assumes "2 < length (Split usergrp CHR '':'')"
  shows "parseRemappedRoot LookupUser LookupGroup usergrp = Inl (ErrInvalidSpec usergrp)"
  using assms by (simp add: parseRemappedRoot_def)

lemma parseRemappedRoot_uid:
  assumes "ParseInt32 a = Some A"
  shows "parseRemappedRoot LookupUser LookupGroup a = Inr (word_of_int A, word_of_int A)"
proof -
  have "Split a CHR '':'' = [a]"
    using assms by (intro Split_no_sep ParseInt32_no_colon)
  then show ?thesis using assms by (simp add: parseRemappedRoot_def)
qed

lemma parseRemappedRoot_uid_gid:
  assumes "ParseInt32 a = Some A" "ParseInt32 b = Some B"
  shows "parseRemappedRoot LookupUser LookupGroup (a @ CHR '':'' # b) =
         Inr (word_of_int A, word_of_int B)"
proof -
  have "Split (a @ CHR '':'' # b) CHR '':'' = [a, b]"
    using assms by (intro Split_one_sep ParseInt32_no_colon)
  then show ?thesis using assms by (simp add: parseRemappedRoot_def)
qed

text \<open>
  What the code does. The empty spec is handled by the only caller: \<open>setupRemappedRoot\<close>
  returns no tables (no remap) and no error when the option is empty, and calls the
  parser only when it is not. A spec that splits on \<open>:\<close> into more than two components
  fails with the invalid-spec error; a component that \<open>strconv.ParseInt(s, 10, 32)\<close>
  accepts is taken as the id, before any lookup, alone as uid and gid, or as uid and as
  gid of a pair.
\<close>

lemma parseRemappedRoot_resolution:
  "(RemappedRoot config = '''' \<longrightarrow>
      setupRemappedRoot GOOS LookupUser LookupGroup config = Inr (None, None)) \<and>
   (2 < length (Split usergrp CHR '':'') \<longrightarrow>
      parseRemappedRoot LookupUser LookupGroup usergrp = Inl (ErrInvalidSpec usergrp)) \<and>
   (ParseInt32 a = Some A \<longrightarrow>
      parseRemappedRoot LookupUser LookupGroup a = Inr (word_of_int A, word_of_int A)) \<and>
   (ParseInt32 a = Some A \<and> ParseInt32 b = Some B \<longrightarrow>
      parseRemappedRoot LookupUser LookupGroup (a @ '':'' @ b) =
        Inr (word_of_int A, word_of_int B))"
  by (simp add: setupRemappedRoot_def parseRemappedRoot_too_many parseRemappedRoot_uid
      parseRemappedRoot_uid_gid)

lemma ParseInt32_examples:
  "ParseInt32 ''1000'' = Some 1000"
  "ParseInt32 ''2147483647'' = Some 2147483647"
  "ParseInt32 ''2147483648'' = None"
  "ParseInt32 ''3000000000'' = None"
  "ParseInt32 ''4294967295'' = None"
  by (simp_all add: ParseInt32_def ParseUint_def isDigit_def)

text \<open>
  C6. The comment on \<open>parseRemappedRoot\<close> gives a uid or gid as a 32-bit unsigned
  integer, but the code parses it with \<open>strconv.ParseInt(s, 10, 32)\<close>, which accepts
  the signed 32-bit integers only. The spec \<open>3000000000\<close> is a base-10 32-bit
  unsigned integer; the integer parse fails, the text is looked up as a user name, and
  on a host without a user of that name the result is the lookup error, not the pair
  \<open>(3000000000, 3000000000)\<close>. The same happens to the gid of \<open>1000:3000000000\<close>,
  while \<open>2147483647\<close> is still taken as the id.
\<close>

theorem parseRemappedRoot_rejects_uint32:
  "parseRemappedRoot (\<lambda>n. Inl ErrNotExist) (\<lambda>n. Inl ErrNotExist) ''3000000000'' =
     Inl (ErrUidLookup ''3000000000'' ErrNotExist) \<and>
   parseRemappedRoot (\<lambda>n. Inl ErrNotExist) (\<lambda>n. Inl ErrNotExist) ''1000:3000000000'' =
     Inl (ErrGidLookup ''3000000000'' ErrNotExist) \<and>
   parseRemappedRoot (\<lambda>n. Inl ErrNotExist) (\<lambda>n. Inl ErrNotExist) ''2147483647'' =
     Inr (2147483647, 2147483647)"
  by (simp add: parseRemappedRoot_def ParseInt32_examples)

section \<open>Paths\<close>

lemma Split_nonempty: "Split s sep \<noteq> []"
  by (induction s) (auto split: list.splits)

lemma Split_append_sep:
  "Split (x @ sep # y) sep = Split x sep @ Split y sep"
  by (induction x) (auto simp add: Split_nonempty split: list.splits)

lemma Split_joinSlash:
  "es \<noteq> [] \<Longrightarrow> \<forall>e\<in>set es. CHR ''/'' \<notin> set e \<Longrightarrow> Split (joinSlash es) CHR ''/'' = es"
proof (induction es rule: joinSlash.induct)
  case 1
  then show ?case by simp
next
  case (2 e)
  then show ?case by (simp add: Split_no_sep)
next
  case (3 e v va)
  then show ?case by (simp add: Split_append_sep Split_no_sep)
qed

lemma Split_absPath:
  assumes "\<forall>e\<in>set es. CHR ''/'' \<notin> set e"
  shows "Split (absPath es) CHR ''/'' = (if es = [] then [[], []] else [] # es)"
proof -
  have "Split (absPath es) CHR ''/'' = [] # Split (joinSlash es) CHR ''/''"
    by (simp add: absPath_def)
  with assms show ?thesis by (cases "es = []") (simp_all add: Split_joinSlash)
qed

lemma cleanElems_names:
  "\<forall>e\<in>set es. isName e \<Longrightarrow> cleanElems rooted out es = out @ es"
  by (induction es arbitrary: out) (auto simp add: isName_def)

lemma cleanElems_append:
  "cleanElems rooted out (xs @ ys) = cleanElems rooted (cleanElems rooted out xs) ys"
  by (induction xs arbitrary: out) auto

lemma Clean_absPath_join:
  assumes "\<forall>e\<in>set hs. isName e" "\<forall>e\<in>set es. isName e" "es \<noteq> []"
  shows "Clean (joinSlash (absPath hs # es)) = absPath (hs @ es)"
proof -
  have nos: "\<forall>e\<in>set hs. CHR ''/'' \<notin> set e" "\<forall>e\<in>set es. CHR ''/'' \<notin> set e"
    using assms by (auto simp add: isName_def)
  obtain e es' where es: "es = e # es'" using assms(3) by (cases es) auto
  define p where "p = joinSlash (absPath hs # es)"
  have j: "p = absPath hs @ CHR ''/'' # joinSlash es"
    by (simp add: p_def es)
  have sp: "Split p CHR ''/'' = Split (absPath hs) CHR ''/'' @ es"
    unfolding j using nos(2) assms(3) by (simp add: Split_append_sep Split_joinSlash)
  have "cleanElems True [] (Split (absPath hs) CHR ''/'' @ es) = hs @ es"
    using assms(1,2) nos(1)
    by (simp add: Split_absPath cleanElems_append cleanElems_names)
  then have ce: "cleanElems True [] (Split p CHR ''/'') = hs @ es"
    by (simp add: sp)
  have pne: "p \<noteq> []" and phd: "hd p = CHR ''/''"
    by (simp_all add: j absPath_def)
  have "Clean p = absPath (hs @ es)"
    using pne phd ce by (simp add: Clean_def Let_def absPath_def)
  then show ?thesis by (simp add: p_def)
qed

lemma Join_absPath:
  assumes "\<forall>e\<in>set hs. isName e" "\<forall>e\<in>set es. isName e" "es \<noteq> []"
  shows "Join (absPath hs # es) = absPath (hs @ es)"
  using Clean_absPath_join [OF assms] by (simp add: Join_def absPath_def)

lemma Driver_Get_path:
  assumes "\<forall>e\<in>set hs. isName e" "isName ident"
  shows "Join [Join [absPath hs, ''mnt'', ident], ''rootfs''] =
         absPath (hs @ [''mnt'', ident, ''rootfs''])"
proof -
  have n: "isName ''mnt''" "isName ''rootfs''" by (simp_all add: isName_def)
  have "Join [absPath hs, ''mnt'', ident] = absPath (hs @ [''mnt'', ident])"
    using assms n by (intro Join_absPath) auto
  moreover have "Join [absPath (hs @ [''mnt'', ident]), ''rootfs''] =
      absPath ((hs @ [''mnt'', ident]) @ [''rootfs''])"
    using assms n by (intro Join_absPath) auto
  ultimately show ?thesis by simp
qed

section \<open>Logged runs\<close>

lemma logged_apply:
  "logged c f (w, cs) = (fst (f w), snd (f w), cs @ [c])"
  by (simp add: logged_def split: prod.splits)

lemma loggedOS_sel:
  "Stat (loggedOS sys) p = logged (CallStat p) (Stat sys p)"
  "Mkdir (loggedOS sys) p m = logged (CallMkdir p m) (Mkdir sys p m)"
  "MkdirAll (loggedOS sys) p m = logged (CallMkdirAll p m) (MkdirAll sys p m)"
  "Chown (loggedOS sys) p u g = logged (CallChown p u g) (Chown sys p u g)"
  "Chmod (loggedOS sys) p m = logged (CallChmod p m) (Chmod sys p m)"
  "Rename (loggedOS sys) p q = logged (CallRename p q) (Rename sys p q)"
  "ReadDir (loggedOS sys) p = logged (CallReadDir p) (ReadDir sys p)"
  "RemoveAll (loggedOS sys) p = logged (CallRemoveAll p) (RemoveAll sys p)"
  "WriteFile (loggedOS sys) p dat m = logged (CallWriteFile p dat m) (WriteFile sys p dat m)"
  by (simp_all add: loggedOS_def)

lemma loggedDriver_sel:
  "AddDevice (DeviceSet (loggedDriver d)) i p = logged (CallAddDevice i p) (AddDevice (DeviceSet d) i p)"
  "DeleteDevice (DeviceSet (loggedDriver d)) i = logged (CallDeleteDevice i) (DeleteDevice (DeviceSet d) i)"
  "HasDevice (DeviceSet (loggedDriver d)) i = logged (CallHasDevice i) (HasDevice (DeviceSet d) i)"
  "MountDevice (DeviceSet (loggedDriver d)) i p l = logged (CallMountDevice i p l) (MountDevice (DeviceSet d) i p l)"
  "UnmountDevice (DeviceSet (loggedDriver d)) i = logged (CallUnmountDevice i) (UnmountDevice (DeviceSet d) i)"
  "home (loggedDriver d) = home d"
  "uidMaps (loggedDriver d) = uidMaps d"
  "gidMaps (loggedDriver d) = gidMaps d"
  by (simp_all add: loggedDriver_def loggedDeviceSet_def)

lemma mkdirAs_logged:
  "mkdirAs (loggedOS sys) p m u g b (w, cs) =
     (fst (mkdirAs sys p m u g b w), snd (mkdirAs sys p m u g b w),
      cs @ mkdirAs_calls sys p m u g b w)"
  by (auto simp add: mkdirAs_def mkdirAs_calls_def loggedOS_sel logged_apply
      split: prod.splits option.splits)

lemma mkdirAs_calls_no_mount:
  "filter isMount (mkdirAs_calls sys p m u g b w) = []"
  "filter isUnmount (mkdirAs_calls sys p m u g b w) = []"
  by (simp_all add: mkdirAs_calls_def)

section \<open>Directories with an owner\<close>

text \<open>
  C10. A run of \<open>mkdirAs\<close> on the logging host, from an empty log; \<open>MkdirAs\<close> is the run
  without and \<open>MkdirAllAs\<close> the run with \<open>mkAll\<close>. Its first call is \<open>os.Mkdir\<close> or
  \<open>os.MkdirAll\<close> on the path, with the permission bits given. If that call returns an
  error other than already-exists, the run returns it and makes no other call: nothing is
  chowned. Otherwise, whether the call has made directories or the leaf was there
  already, the run makes one more call and no other, \<open>os.Chown\<close> on the path it was
  given with the owner asked for, and returns what that call returns. So the state the
  run leaves is the state \<open>os.Mkdir\<close> or \<open>os.MkdirAll\<close> left, parents as that call made
  them, with the one \<open>chown\<close> of the leaf applied.
\<close>

theorem mkdirAs_chowns_leaf_only:
  fixes sys :: "'w OS"
  assumes "mkdirAs (loggedOS sys) path mode ownerUID ownerGID mkAll (w, []) = (r, w', cs)"
  shows
    "MkdirAs sys path mode ownerUID ownerGID = mkdirAs sys path mode ownerUID ownerGID False \<and>
     MkdirAllAs sys path mode ownerUID ownerGID = mkdirAs sys path mode ownerUID ownerGID True \<and>
     (let mk = (if mkAll then MkdirAll sys path mode w else Mkdir sys path mode w);
          mkCall = (if mkAll then CallMkdirAll path mode else CallMkdir path mode);
          ch = Chown sys path ownerUID ownerGID (snd mk)
      in (\<forall>err. fst mk = Some err \<and> \<not> IsExist err \<longrightarrow>
            r = Some err \<and> w' = snd mk \<and> cs = [mkCall]) \<and>
         (fst mk = None \<or> (\<exists>err. fst mk = Some err \<and> IsExist err) \<longrightarrow>
            r = fst ch \<and> w' = snd ch \<and> cs = [mkCall, CallChown path ownerUID ownerGID])) \<and>
     (filter isChown cs = [] \<or> filter isChown cs = [CallChown path ownerUID ownerGID])"
  using assms
  by (auto simp add: MkdirAs_def MkdirAllAs_def mkdirAs_def loggedOS_sel logged_apply Let_def
      unlessIsExist_def split: prod.splits option.splits if_splits)

theorem mkdirAs_chowns_leaf_only_witness:
  "MkdirAll exampleDiskOS ''/var/lib/docker/x/y'' 493 exampleFlatRoot =
     (None, exampleFlatRoot @ [''/var/lib/docker/x'', ''/var/lib/docker/x/y'']) \<and>
   mkdirAs (loggedOS exampleDiskOS) ''/var/lib/docker/x/y'' 493 1000 1000 True
      (exampleFlatRoot, []) =
     (None, exampleFlatRoot @ [''/var/lib/docker/x'', ''/var/lib/docker/x/y''],
      [CallMkdirAll ''/var/lib/docker/x/y'' 493,
       CallChown ''/var/lib/docker/x/y'' 1000 1000]) \<and>
   Mkdir exampleDiskOS ''/var/lib/docker/b'' 493 exampleFlatRoot =
     (Some ErrExist, exampleFlatRoot) \<and>
   IsExist ErrExist \<and>
   mkdirAs (loggedOS exampleDiskOS) ''/var/lib/docker/b'' 493 1000 1000 False
      (exampleFlatRoot, []) =
     (None, exampleFlatRoot,
      [CallMkdir ''/var/lib/docker/b'' 493, CallChown ''/var/lib/docker/b'' 1000 1000]) \<and>
   Mkdir exampleDiskOS ''/var/lib/docker/x/y'' 493 exampleFlatRoot =
     (Some ErrNotExist, exampleFlatRoot) \<and>
   \<not> IsExist ErrNotExist \<and>
   mkdirAs (loggedOS exampleDiskOS) ''/var/lib/docker/x/y'' 493 1000 1000 False
      (exampleFlatRoot, []) =
     (Some ErrNotExist, exampleFlatRoot, [CallMkdir ''/var/lib/docker/x/y'' 493])"
proof -
  have m1: "MkdirAll exampleDiskOS ''/var/lib/docker/x/y'' 493 exampleFlatRoot =
      (None, exampleFlatRoot @ [''/var/lib/docker/x'', ''/var/lib/docker/x/y''])"
    by code_simp
  have c1: "Chown exampleDiskOS ''/var/lib/docker/x/y'' 1000 1000
      (exampleFlatRoot @ [''/var/lib/docker/x'', ''/var/lib/docker/x/y'']) =
      (None, exampleFlatRoot @ [''/var/lib/docker/x'', ''/var/lib/docker/x/y''])"
    by code_simp
  have m2: "Mkdir exampleDiskOS ''/var/lib/docker/b'' 493 exampleFlatRoot =
      (Some ErrExist, exampleFlatRoot)"
    by code_simp
  have c2: "Chown exampleDiskOS ''/var/lib/docker/b'' 1000 1000 exampleFlatRoot =
      (None, exampleFlatRoot)"
    by code_simp
  have m3: "Mkdir exampleDiskOS ''/var/lib/docker/x/y'' 493 exampleFlatRoot =
      (Some ErrNotExist, exampleFlatRoot)"
    by code_simp
  define R1 where "R1 = mkdirAs (loggedOS exampleDiskOS) ''/var/lib/docker/x/y'' 493 1000 1000
      True (exampleFlatRoot, [])"
  define R2 where "R2 = mkdirAs (loggedOS exampleDiskOS) ''/var/lib/docker/b'' 493 1000 1000
      False (exampleFlatRoot, [])"
  define R3 where "R3 = mkdirAs (loggedOS exampleDiskOS) ''/var/lib/docker/x/y'' 493 1000 1000
      False (exampleFlatRoot, [])"
  have e1: "mkdirAs (loggedOS exampleDiskOS) ''/var/lib/docker/x/y'' 493 1000 1000
      True (exampleFlatRoot, []) = (fst R1, fst (snd R1), snd (snd R1))"
    by (simp add: R1_def)
  have e2: "mkdirAs (loggedOS exampleDiskOS) ''/var/lib/docker/b'' 493 1000 1000
      False (exampleFlatRoot, []) = (fst R2, fst (snd R2), snd (snd R2))"
    by (simp add: R2_def)
  have e3: "mkdirAs (loggedOS exampleDiskOS) ''/var/lib/docker/x/y'' 493 1000 1000
      False (exampleFlatRoot, []) = (fst R3, fst (snd R3), snd (snd R3))"
    by (simp add: R3_def)
  have r1: "R1 = (None, exampleFlatRoot @ [''/var/lib/docker/x'', ''/var/lib/docker/x/y''],
      [CallMkdirAll ''/var/lib/docker/x/y'' 493,
       CallChown ''/var/lib/docker/x/y'' 1000 1000])"
    using mkdirAs_chowns_leaf_only [OF e1] m1 c1
    by (simp add: Let_def prod_eq_iff)
  have r2: "R2 = (None, exampleFlatRoot,
      [CallMkdir ''/var/lib/docker/b'' 493, CallChown ''/var/lib/docker/b'' 1000 1000])"
    using mkdirAs_chowns_leaf_only [OF e2] m2 c2
    by (simp add: Let_def prod_eq_iff)
  have r3: "R3 = (Some ErrNotExist, exampleFlatRoot, [CallMkdir ''/var/lib/docker/x/y'' 493])"
    using mkdirAs_chowns_leaf_only [OF e3] m3
    by (simp add: Let_def prod_eq_iff)
  show ?thesis
    using m1 m2 m3 r1 r2 r3 by (simp add: R1_def R2_def R3_def)
qed

section \<open>The daemon root\<close>





lemma setupDaemonRoot_logged_finish:
  "(case MkdirAllAs (loggedOS sys) p 448 u g (w0, pre) of
      (Some err, w'') \<Rightarrow> (Some (ErrCreateRoot p err), c, w'')
    | (None, w'') \<Rightarrow> (None, c, w'')) =
   (map_option (ErrCreateRoot p) (fst (MkdirAllAs sys p 448 u g w0)), c,
    snd (MkdirAllAs sys p 448 u g w0), pre @ mkdirAs_calls sys p 448 u g True w0)"
  by (simp add: MkdirAllAs_def mkdirAs_logged split: option.splits)


lemma example_second_run:
  "setupDaemonRoot (loggedOS exampleDiskOS)
      \<lparr>Root = ''/var/lib/docker/0.0'', ExecDriver = ''native'', RemappedRoot = []\<rparr>
      ''/var/lib/docker'' 0 0
      ([''/var'', ''/var/lib'', ''/var/lib/docker'', ''/var/lib/docker/0.0/b'',
        ''/var/lib/docker/0.0/a'', ''/var/lib/docker/0.0/b/c'', ''/var/lib/docker/0.0''], []) =
     (None,
      \<lparr>Root = ''/var/lib/docker/0.0'', ExecDriver = ''native'', RemappedRoot = []\<rparr>,
      [''/var'', ''/var/lib'', ''/var/lib/docker'', ''/var/lib/docker/0.0/b'',
       ''/var/lib/docker/0.0/a'', ''/var/lib/docker/0.0/b/c'', ''/var/lib/docker/0.0''],
      [CallStat ''/var/lib/docker'', CallStat ''/var/lib/docker/0.0'',
       CallMkdirAll ''/var/lib/docker/0.0'' 448,
       CallChown ''/var/lib/docker/0.0'' 0 0])"
  by code_simp


lemma example_fresh_second_run:
  "setupDaemonRoot (loggedOS exampleDiskOS)
      \<lparr>Root = ''/var/lib/docker/1000.1000'', ExecDriver = ''native'',
         RemappedRoot = ''1000:1000''\<rparr>
      ''/var/lib/docker'' 1000 1000
      ([''/var'', ''/var/lib'', ''/var/lib/docker'', ''/var/lib/docker/0.0'',
        ''/var/lib/docker/1000.1000''], []) =
     (None,
      \<lparr>Root = ''/var/lib/docker/1000.1000'', ExecDriver = ''native'',
         RemappedRoot = ''1000:1000''\<rparr>,
      [''/var'', ''/var/lib'', ''/var/lib/docker'', ''/var/lib/docker/0.0'',
       ''/var/lib/docker/1000.1000''],
      [CallStat ''/var/lib/docker'', CallStat ''/var/lib/docker/0.0'',
       CallMkdirAll ''/var/lib/docker/1000.1000'' 448,
       CallChown ''/var/lib/docker/1000.1000'' 1000 1000])"
  by code_simp



section \<open>Runs of the driver\<close>

text \<open>On the host, a run over the logging capabilities is the run over the given ones.\<close>

lemma mkdirAs_logged_host:
  "fst (mkdirAs (loggedOS sys) p m u g b (w, cs)) = fst (mkdirAs sys p m u g b w)"
  "fst (snd (mkdirAs (loggedOS sys) p m u g b (w, cs))) = snd (mkdirAs sys p m u g b w)"
  by (simp_all add: mkdirAs_logged)

lemma Driver_Remove_logged_host:
  "fst (Driver_Remove (loggedOS sys) (loggedDriver d) ident (w, cs)) =
     fst (Driver_Remove sys d ident w)"
  "fst (snd (Driver_Remove (loggedOS sys) (loggedDriver d) ident (w, cs))) =
     snd (Driver_Remove sys d ident w)"
  by (auto simp add: Driver_Remove_def loggedDriver_sel loggedOS_sel logged_apply Let_def
      split: prod.splits option.splits bool.splits)

lemma Driver_Get_logged_host:
  "fst (Driver_Get (loggedOS sys) (loggedDriver d) ident l (w, cs)) =
     fst (Driver_Get sys d ident l w)"
  "fst (snd (Driver_Get (loggedOS sys) (loggedDriver d) ident l (w, cs))) =
     snd (Driver_Get sys d ident l w)"
  by (auto simp add: Driver_Get_def MkdirAllAs_def MkdirAs_def mkdirAs_logged
      loggedDriver_sel loggedOS_sel logged_apply Let_def
      split: prod.splits option.splits sum.splits if_splits)

subsection \<open>Runs on the example host\<close>

lemma example_Join:
  "Join [''/var/lib/docker/0.0/devicemapper'', ''mnt''] = ''/var/lib/docker/0.0/devicemapper/mnt''"
  "Join [''/var/lib/docker/0.0/devicemapper'', ''mnt'', ''abc''] =
     ''/var/lib/docker/0.0/devicemapper/mnt/abc''"
  "Join [''/var/lib/docker/0.0/devicemapper/mnt/abc'', ''rootfs''] =
     ''/var/lib/docker/0.0/devicemapper/mnt/abc/rootfs''"
  "Join [''/var/lib/docker/0.0/devicemapper/mnt/abc'', ''id''] =
     ''/var/lib/docker/0.0/devicemapper/mnt/abc/id''"
  by (simp_all add: Join_def Clean_def)

lemma exampleOS_sel:
  "Stat (exampleOS s x r) p w = (s, w)"
  "Mkdir (exampleOS s x r) p m w = (None, w)"
  "MkdirAll (exampleOS s x r) p m w = (None, w)"
  "Chown (exampleOS s x r) p u g w = (None, w)"
  "RemoveAll (exampleOS s x r) p w = (r, w)"
  "WriteFile (exampleOS s x r) p dat m w = (x, w)"
  by (simp_all add: exampleOS_def)

lemma exampleDriver_sel:
  "DeleteDevice (DeviceSet (exampleDriver h)) i w = (None, w)"
  "HasDevice (DeviceSet (exampleDriver h)) i w = (h, w)"
  "MountDevice (DeviceSet (exampleDriver h)) i p l w = (None, w)"
  "UnmountDevice (DeviceSet (exampleDriver h)) i w = (None, w)"
  "home (exampleDriver h) = ''/var/lib/docker/0.0/devicemapper''"
  "uidMaps (exampleDriver h) = None"
  "gidMaps (exampleDriver h) = None"
  by (simp_all add: exampleDriver_def)

lemma example_Get_success:
  "Driver_Get (loggedOS (exampleOS (Some ErrNotExist) None None))
      (loggedDriver (exampleDriver True)) ''abc'' ''label'' ((), []) =
     (Inr ''/var/lib/docker/0.0/devicemapper/mnt/abc/rootfs'', (),
      [CallMkdirAll ''/var/lib/docker/0.0/devicemapper/mnt'' 493,
       CallChown ''/var/lib/docker/0.0/devicemapper/mnt'' 0 0,
       CallMkdir ''/var/lib/docker/0.0/devicemapper/mnt/abc'' 493,
       CallChown ''/var/lib/docker/0.0/devicemapper/mnt/abc'' 0 0,
       CallMountDevice ''abc'' ''/var/lib/docker/0.0/devicemapper/mnt/abc'' ''label'',
       CallMkdirAll ''/var/lib/docker/0.0/devicemapper/mnt/abc/rootfs'' 493,
       CallChown ''/var/lib/docker/0.0/devicemapper/mnt/abc/rootfs'' 0 0,
       CallStat ''/var/lib/docker/0.0/devicemapper/mnt/abc/id'',
       CallWriteFile ''/var/lib/docker/0.0/devicemapper/mnt/abc/id'' ''abc'' 384])"
  by (simp add: Driver_Get_def example_Join MkdirAllAs_def MkdirAs_def mkdirAs_logged
      mkdirAs_def mkdirAs_calls_def loggedDriver_sel loggedOS_sel logged_apply
      exampleDriver_sel exampleOS_sel GetRootUIDGID_def unlessIsExist_def Let_def)

lemma example_Get_failure:
  "Driver_Get (loggedOS (exampleOS (Some ErrNotExist) (Some (ErrOther ''no space'')) None))
      (loggedDriver (exampleDriver True)) ''abc'' ''label'' ((), []) =
     (Inl (ErrOther ''no space''), (),
      [CallMkdirAll ''/var/lib/docker/0.0/devicemapper/mnt'' 493,
       CallChown ''/var/lib/docker/0.0/devicemapper/mnt'' 0 0,
       CallMkdir ''/var/lib/docker/0.0/devicemapper/mnt/abc'' 493,
       CallChown ''/var/lib/docker/0.0/devicemapper/mnt/abc'' 0 0,
       CallMountDevice ''abc'' ''/var/lib/docker/0.0/devicemapper/mnt/abc'' ''label'',
       CallMkdirAll ''/var/lib/docker/0.0/devicemapper/mnt/abc/rootfs'' 493,
       CallChown ''/var/lib/docker/0.0/devicemapper/mnt/abc/rootfs'' 0 0,
       CallStat ''/var/lib/docker/0.0/devicemapper/mnt/abc/id'',
       CallWriteFile ''/var/lib/docker/0.0/devicemapper/mnt/abc/id'' ''abc'' 384,
       CallUnmountDevice ''abc''])"
  by (simp add: Driver_Get_def example_Join MkdirAllAs_def MkdirAs_def mkdirAs_logged
      mkdirAs_def mkdirAs_calls_def loggedDriver_sel loggedOS_sel logged_apply
      exampleDriver_sel exampleOS_sel GetRootUIDGID_def unlessIsExist_def Let_def)

lemma exampleOS_chownFails_sel:
  "Stat (exampleOS_chownFails bad) p w = (Some ErrNotExist, w)"
  "Mkdir (exampleOS_chownFails bad) p m w = (None, w)"
  "MkdirAll (exampleOS_chownFails bad) p m w = (None, w)"
  "Chown (exampleOS_chownFails bad) p u g w =
     (if p = bad then Some (ErrOther ''operation not permitted'') else None, w)"
  "WriteFile (exampleOS_chownFails bad) p dat m w = (None, w)"
  by (simp_all add: exampleOS_chownFails_def exampleOS_def)

lemma example_GetRootUIDGID:
  "GetRootUIDGID (uidMaps (exampleDriver h)) (gidMaps (exampleDriver h)) = Inr (0, 0)"
  by (simp add: GetRootUIDGID_def exampleDriver_sel TranslateIDToHost_def)

section \<open>The devicemapper driver\<close>

text \<open>
  C7. A run of \<open>Remove\<close> on the logging host, from an empty log. If the device set does
  not have the device, the run returns no error and its only call is the \<open>HasDevice\<close>
  query: no device-set action, no action on the mountpoint. If it has the device, the
  run calls \<open>DeleteDevice\<close> and returns its error if there is one, without touching
  the mountpoint; otherwise it calls \<open>os.RemoveAll\<close> on \<open>home/mnt/id\<close> and returns
  the error of that call unless it is nil or a does-not-exist error.
\<close>

theorem Driver_Remove_absent_is_noop:
  fixes sys :: "'w OS" and d :: "'w Driver"
  assumes "Driver_Remove (loggedOS sys) (loggedDriver d) ident (w, []) = (r, w', cs)"
  shows "(\<not> fst (HasDevice (DeviceSet d) ident w) \<longrightarrow>
            r = None \<and> cs = [CallHasDevice ident] \<and> w' = snd (HasDevice (DeviceSet d) ident w)) \<and>
         (fst (HasDevice (DeviceSet d) ident w) \<longrightarrow>
            (let w1 = snd (HasDevice (DeviceSet d) ident w);
                 del = DeleteDevice (DeviceSet d) ident w1;
                 mp = Join [home d, ''mnt'', ident];
                 rm = RemoveAll sys mp (snd del)
             in (\<forall>err. fst del = Some err \<longrightarrow>
                    r = Some err \<and> cs = [CallHasDevice ident, CallDeleteDevice ident]) \<and>
                (fst del = None \<longrightarrow>
                    cs = [CallHasDevice ident, CallDeleteDevice ident, CallRemoveAll mp] \<and>
                    w' = snd rm \<and>
                    (fst rm = None \<longrightarrow> r = None) \<and>
                    (\<forall>err. fst rm = Some err \<longrightarrow>
                       r = (if IsNotExist err then None else Some err)))))"
  using assms
  by (auto simp add: Driver_Remove_def loggedDriver_sel loggedOS_sel logged_apply Let_def
      unlessIsNotExist_def split: prod.splits option.splits bool.splits if_splits)

theorem Driver_Remove_absent_is_noop_witness:
  "Driver_Remove (loggedOS (exampleOS None None None)) (loggedDriver (exampleDriver False))
      ''abc'' ((), []) = (None, (), [CallHasDevice ''abc'']) \<and>
   Driver_Remove (loggedOS (exampleOS None None (Some ErrNotExist)))
      (loggedDriver (exampleDriver True)) ''abc'' ((), []) =
     (None, (),
      [CallHasDevice ''abc'', CallDeleteDevice ''abc'',
       CallRemoveAll ''/var/lib/docker/0.0/devicemapper/mnt/abc'']) \<and>
   Driver_Remove (loggedOS (exampleOS None None (Some (ErrOther ''busy''))))
      (loggedDriver (exampleDriver True)) ''abc'' ((), []) =
     (Some (ErrOther ''busy''), (),
      [CallHasDevice ''abc'', CallDeleteDevice ''abc'',
       CallRemoveAll ''/var/lib/docker/0.0/devicemapper/mnt/abc''])"
proof -
  let ?mp = "''/var/lib/docker/0.0/devicemapper/mnt/abc''"
  have e1:
    "Driver_Remove (loggedOS (exampleOS None None None)) (loggedDriver (exampleDriver False))
       ''abc'' ((), []) =
     (fst (Driver_Remove (loggedOS (exampleOS None None None))
             (loggedDriver (exampleDriver False)) ''abc'' ((), [])), (),
      snd (snd (Driver_Remove (loggedOS (exampleOS None None None))
             (loggedDriver (exampleDriver False)) ''abc'' ((), []))))"
    by (simp add: prod_eq_iff)
  have e2:
    "Driver_Remove (loggedOS (exampleOS None None (Some ErrNotExist)))
       (loggedDriver (exampleDriver True)) ''abc'' ((), []) =
     (fst (Driver_Remove (loggedOS (exampleOS None None (Some ErrNotExist)))
             (loggedDriver (exampleDriver True)) ''abc'' ((), [])), (),
      snd (snd (Driver_Remove (loggedOS (exampleOS None None (Some ErrNotExist)))
             (loggedDriver (exampleDriver True)) ''abc'' ((), []))))"
    by (simp add: prod_eq_iff)
  have e3:
    "Driver_Remove (loggedOS (exampleOS None None (Some (ErrOther ''busy''))))
       (loggedDriver (exampleDriver True)) ''abc'' ((), []) =
     (fst (Driver_Remove (loggedOS (exampleOS None None (Some (ErrOther ''busy''))))
             (loggedDriver (exampleDriver True)) ''abc'' ((), [])), (),
      snd (snd (Driver_Remove (loggedOS (exampleOS None None (Some (ErrOther ''busy''))))
             (loggedDriver (exampleDriver True)) ''abc'' ((), []))))"
    by (simp add: prod_eq_iff)
  have t1: "fst (Driver_Remove (loggedOS (exampleOS None None None))
             (loggedDriver (exampleDriver False)) ''abc'' ((), [])) = None \<and>
      snd (snd (Driver_Remove (loggedOS (exampleOS None None None))
             (loggedDriver (exampleDriver False)) ''abc'' ((), []))) = [CallHasDevice ''abc'']"
    using Driver_Remove_absent_is_noop [OF e1]
    by (simp add: exampleDriver_sel)
  have t2: "fst (Driver_Remove (loggedOS (exampleOS None None (Some ErrNotExist)))
             (loggedDriver (exampleDriver True)) ''abc'' ((), [])) = None \<and>
      snd (snd (Driver_Remove (loggedOS (exampleOS None None (Some ErrNotExist)))
             (loggedDriver (exampleDriver True)) ''abc'' ((), []))) =
        [CallHasDevice ''abc'', CallDeleteDevice ''abc'', CallRemoveAll ?mp]"
    using Driver_Remove_absent_is_noop [OF e2]
    by (simp add: exampleDriver_sel exampleOS_sel example_Join Let_def)
  have t3: "fst (Driver_Remove (loggedOS (exampleOS None None (Some (ErrOther ''busy''))))
             (loggedDriver (exampleDriver True)) ''abc'' ((), [])) = Some (ErrOther ''busy'') \<and>
      snd (snd (Driver_Remove (loggedOS (exampleOS None None (Some (ErrOther ''busy''))))
             (loggedDriver (exampleDriver True)) ''abc'' ((), []))) =
        [CallHasDevice ''abc'', CallDeleteDevice ''abc'', CallRemoveAll ?mp]"
    using Driver_Remove_absent_is_noop [OF e3]
    by (simp add: exampleDriver_sel exampleOS_sel example_Join Let_def)
  show ?thesis
    using t1 t2 t3 by (simp add: prod_eq_iff)
qed

text \<open>
  C8. A run of \<open>Get\<close> on the logging host, from an empty log. If it succeeds, it returns
  \<open>home/mnt/id/rootfs\<close> (for a clean absolute home and an id that is a name, the path
  of the components of home followed by \<open>mnt\<close>, the id and \<open>rootfs\<close>), it has called
  \<open>MountDevice\<close> once and \<open>UnmountDevice\<close> never, and after the \<open>Put\<close> that follows
  the log holds one call of each. If it fails after its call of \<open>MountDevice\<close> has
  returned (the mount call is in the log and is not the last call), the last call is
  \<open>UnmountDevice\<close> of the id, and the log holds one call of each.

  What happens after the mount is fixed step by step. Once the two mountpoint
  directories are there and \<open>MountDevice\<close> has returned no error: if \<open>MkdirAllAs\<close> of
  the \<open>rootfs\<close> directory returns an error other than already-exists, \<open>Get\<close> returns
  that error and its last call, after the calls of that \<open>MkdirAllAs\<close>, is
  \<open>UnmountDevice\<close> of the id, on the state the failed step left; if \<open>os.Stat\<close> does
  not find the id file and \<open>ioutil.WriteFile\<close> fails, \<open>Get\<close> returns that error and
  the log ends with the \<open>Stat\<close>, the \<open>WriteFile\<close> and \<open>UnmountDevice\<close> of the id; in
  the two remaining cases \<open>Get\<close> returns the \<open>rootfs\<close> path and the log ends with the
  \<open>Stat\<close>, or with the \<open>Stat\<close> and the \<open>WriteFile\<close>, and holds no unmount.
\<close>

theorem Driver_Get_Put_balanced:
  fixes sys :: "'w OS" and d :: "'w Driver"
  assumes "Driver_Get (loggedOS sys) (loggedDriver d) ident mountLabel (w, []) = (r, w1, cs)"
  shows
   "(\<forall>p. r = Inr p \<longrightarrow>
        p = Join [Join [home d, ''mnt'', ident], ''rootfs''] \<and>
        (\<forall>hs. home d = absPath hs \<and> (\<forall>e\<in>set hs. isName e) \<and> isName ident \<longrightarrow>
           p = absPath (hs @ [''mnt'', ident, ''rootfs''])) \<and>
        filter isMount cs = [CallMountDevice ident (Join [home d, ''mnt'', ident]) mountLabel] \<and>
        filter isUnmount cs = [] \<and>
        (let cs2 = snd (snd (Driver_Put (loggedDriver d) ident (w1, cs))) in
           filter isMount cs2 =
             [CallMountDevice ident (Join [home d, ''mnt'', ident]) mountLabel] \<and>
           filter isUnmount cs2 = [CallUnmountDevice ident])) \<and>
    (\<forall>err. r = Inl err \<and> filter isMount cs \<noteq> [] \<and>
            last cs \<noteq> CallMountDevice ident (Join [home d, ''mnt'', ident]) mountLabel \<longrightarrow>
        last cs = CallUnmountDevice ident \<and>
        filter isMount cs = [CallMountDevice ident (Join [home d, ''mnt'', ident]) mountLabel] \<and>
        filter isUnmount cs = [CallUnmountDevice ident]) \<and>
    (\<forall>uid gid. GetRootUIDGID (uidMaps d) (gidMaps d) = Inr (uid, gid) \<longrightarrow>
       (let mp = Join [home d, ''mnt'', ident];
            rootFs = Join [mp, ''rootfs''];
            idFile = Join [mp, ''id''];
            m1 = MkdirAllAs sys (Join [home d, ''mnt'']) 493 uid gid w;
            m2 = MkdirAs sys mp 493 uid gid (snd m1);
            mt = MountDevice (DeviceSet d) ident mp mountLabel (snd m2);
            m4 = MkdirAllAs sys rootFs 493 uid gid (snd mt);
            st = Stat sys idFile (snd m4);
            wf = WriteFile sys idFile ident 384 (snd st);
            pre = mkdirAs_calls sys (Join [home d, ''mnt'']) 493 uid gid True w @
                  mkdirAs_calls sys mp 493 uid gid False (snd m1) @
                  [CallMountDevice ident mp mountLabel] @
                  mkdirAs_calls sys rootFs 493 uid gid True (snd mt)
        in unlessIsExist (fst m1) = None \<and> unlessIsExist (fst m2) = None \<and> fst mt = None \<longrightarrow>
             (\<forall>err. unlessIsExist (fst m4) = Some err \<longrightarrow>
                r = Inl err \<and>
                w1 = snd (UnmountDevice (DeviceSet d) ident (snd m4)) \<and>
                cs = pre @ [CallUnmountDevice ident]) \<and>
             (unlessIsExist (fst m4) = None \<longrightarrow>
                (\<forall>e err. fst st = Some e \<and> IsNotExist e \<and> fst wf = Some err \<longrightarrow>
                   r = Inl err \<and>
                   w1 = snd (UnmountDevice (DeviceSet d) ident (snd wf)) \<and>
                   cs = pre @ [CallStat idFile, CallWriteFile idFile ident 384,
                               CallUnmountDevice ident]) \<and>
                (\<forall>e. fst st = Some e \<and> IsNotExist e \<and> fst wf = None \<longrightarrow>
                   r = Inr rootFs \<and> w1 = snd wf \<and>
                   cs = pre @ [CallStat idFile, CallWriteFile idFile ident 384]) \<and>
                ((\<forall>e. fst st = Some e \<longrightarrow> \<not> IsNotExist e) \<longrightarrow>
                   r = Inr rootFs \<and> w1 = snd st \<and> cs = pre @ [CallStat idFile]))))"
  using assms
  by (auto simp add: Driver_Get_def Driver_Put_def MkdirAllAs_def MkdirAs_def
      mkdirAs_logged mkdirAs_calls_no_mount Driver_Get_path
      loggedDriver_sel loggedOS_sel logged_apply Let_def
      split: prod.splits option.splits sum.splits if_splits)

theorem Driver_Get_Put_balanced_witness:
  "fst (Driver_Get (loggedOS (exampleOS (Some ErrNotExist) None None))
          (loggedDriver (exampleDriver True)) ''abc'' ''label'' ((), [])) =
     Inr (absPath [''var'', ''lib'', ''docker'', ''0.0'', ''devicemapper'', ''mnt'', ''abc'',
                   ''rootfs'']) \<and>
   filter isMount
     (snd (snd (Driver_Put (loggedDriver (exampleDriver True)) ''abc''
        (snd (Driver_Get (loggedOS (exampleOS (Some ErrNotExist) None None))
               (loggedDriver (exampleDriver True)) ''abc'' ''label'' ((), [])))))) =
     [CallMountDevice ''abc'' ''/var/lib/docker/0.0/devicemapper/mnt/abc'' ''label''] \<and>
   filter isUnmount
     (snd (snd (Driver_Put (loggedDriver (exampleDriver True)) ''abc''
        (snd (Driver_Get (loggedOS (exampleOS (Some ErrNotExist) None None))
               (loggedDriver (exampleDriver True)) ''abc'' ''label'' ((), [])))))) =
     [CallUnmountDevice ''abc''] \<and>
   fst (Driver_Get (loggedOS (exampleOS (Some ErrNotExist) (Some (ErrOther ''no space'')) None))
          (loggedDriver (exampleDriver True)) ''abc'' ''label'' ((), [])) =
     Inl (ErrOther ''no space'') \<and>
   filter isMount
     (snd (snd (Driver_Get
        (loggedOS (exampleOS (Some ErrNotExist) (Some (ErrOther ''no space'')) None))
        (loggedDriver (exampleDriver True)) ''abc'' ''label'' ((), [])))) =
     [CallMountDevice ''abc'' ''/var/lib/docker/0.0/devicemapper/mnt/abc'' ''label''] \<and>
   filter isUnmount
     (snd (snd (Driver_Get
        (loggedOS (exampleOS (Some ErrNotExist) (Some (ErrOther ''no space'')) None))
        (loggedDriver (exampleDriver True)) ''abc'' ''label'' ((), [])))) =
     [CallUnmountDevice ''abc''] \<and>
   GetRootUIDGID (uidMaps (exampleDriver True)) (gidMaps (exampleDriver True)) = Inr (0, 0) \<and>
   Driver_Get (loggedOS (exampleOS_chownFails ''/var/lib/docker/0.0/devicemapper/mnt/abc/rootfs''))
       (loggedDriver (exampleDriver True)) ''abc'' ''label'' ((), []) =
     (Inl (ErrOther ''operation not permitted''), (),
      [CallMkdirAll ''/var/lib/docker/0.0/devicemapper/mnt'' 493,
       CallChown ''/var/lib/docker/0.0/devicemapper/mnt'' 0 0,
       CallMkdir ''/var/lib/docker/0.0/devicemapper/mnt/abc'' 493,
       CallChown ''/var/lib/docker/0.0/devicemapper/mnt/abc'' 0 0,
       CallMountDevice ''abc'' ''/var/lib/docker/0.0/devicemapper/mnt/abc'' ''label'',
       CallMkdirAll ''/var/lib/docker/0.0/devicemapper/mnt/abc/rootfs'' 493,
       CallChown ''/var/lib/docker/0.0/devicemapper/mnt/abc/rootfs'' 0 0,
       CallUnmountDevice ''abc'']) \<and>
   Driver_Get (loggedOS (exampleOS (Some ErrNotExist) (Some (ErrOther ''no space'')) None))
       (loggedDriver (exampleDriver True)) ''abc'' ''label'' ((), []) =
     (Inl (ErrOther ''no space''), (),
      [CallMkdirAll ''/var/lib/docker/0.0/devicemapper/mnt'' 493,
       CallChown ''/var/lib/docker/0.0/devicemapper/mnt'' 0 0,
       CallMkdir ''/var/lib/docker/0.0/devicemapper/mnt/abc'' 493,
       CallChown ''/var/lib/docker/0.0/devicemapper/mnt/abc'' 0 0,
       CallMountDevice ''abc'' ''/var/lib/docker/0.0/devicemapper/mnt/abc'' ''label'',
       CallMkdirAll ''/var/lib/docker/0.0/devicemapper/mnt/abc/rootfs'' 493,
       CallChown ''/var/lib/docker/0.0/devicemapper/mnt/abc/rootfs'' 0 0,
       CallStat ''/var/lib/docker/0.0/devicemapper/mnt/abc/id'',
       CallWriteFile ''/var/lib/docker/0.0/devicemapper/mnt/abc/id'' ''abc'' 384,
       CallUnmountDevice ''abc''])"
proof -
  let ?hs = "[''var'', ''lib'', ''docker'', ''0.0'', ''devicemapper'']"
  let ?p = "''/var/lib/docker/0.0/devicemapper/mnt/abc/rootfs''"
  have h: "home (exampleDriver True) = absPath ?hs \<and> (\<forall>e\<in>set ?hs. isName e) \<and> isName ''abc''"
    by (simp add: exampleDriver_sel absPath_def isName_def)
  note t = Driver_Get_Put_balanced [OF example_Get_success, THEN conjunct1, rule_format, OF refl]
  from t have
    "\<forall>hs. home (exampleDriver True) = absPath hs \<and> (\<forall>e\<in>set hs. isName e) \<and> isName ''abc'' \<longrightarrow>
       ?p = absPath (hs @ [''mnt'', ''abc'', ''rootfs''])"
    by blast
  with h have p: "?p = absPath (?hs @ [''mnt'', ''abc'', ''rootfs''])"
    by blast
  from t have s:
     "filter isMount
        (snd (snd (Driver_Put (loggedDriver (exampleDriver True)) ''abc''
           (snd (Driver_Get (loggedOS (exampleOS (Some ErrNotExist) None None))
                  (loggedDriver (exampleDriver True)) ''abc'' ''label'' ((), [])))))) =
        [CallMountDevice ''abc'' ''/var/lib/docker/0.0/devicemapper/mnt/abc'' ''label''] \<and>
      filter isUnmount
        (snd (snd (Driver_Put (loggedDriver (exampleDriver True)) ''abc''
           (snd (Driver_Get (loggedOS (exampleOS (Some ErrNotExist) None None))
                  (loggedDriver (exampleDriver True)) ''abc'' ''label'' ((), [])))))) =
        [CallUnmountDevice ''abc'']"
    unfolding example_Get_success
    by (simp add: Let_def exampleDriver_sel example_Join)
  have f: "filter isMount
     (snd (snd (Driver_Get
        (loggedOS (exampleOS (Some ErrNotExist) (Some (ErrOther ''no space'')) None))
        (loggedDriver (exampleDriver True)) ''abc'' ''label'' ((), [])))) =
     [CallMountDevice ''abc'' ''/var/lib/docker/0.0/devicemapper/mnt/abc'' ''label''] \<and>
   filter isUnmount
     (snd (snd (Driver_Get
        (loggedOS (exampleOS (Some ErrNotExist) (Some (ErrOther ''no space'')) None))
        (loggedDriver (exampleDriver True)) ''abc'' ''label'' ((), [])))) =
     [CallUnmountDevice ''abc'']"
    using Driver_Get_Put_balanced [OF example_Get_failure]
    unfolding example_Get_failure
    by (simp add: exampleDriver_sel example_Join)
  define R where "R = Driver_Get (loggedOS (exampleOS_chownFails ?p))
      (loggedDriver (exampleDriver True)) ''abc'' ''label'' ((), [])"
  have eR: "Driver_Get (loggedOS (exampleOS_chownFails ?p))
      (loggedDriver (exampleDriver True)) ''abc'' ''label'' ((), []) =
      (fst R, (), snd (snd R))"
    by (simp add: R_def prod_eq_iff)
  note u = Driver_Get_Put_balanced [OF eR, THEN conjunct2, THEN conjunct2, rule_format,
      OF example_GetRootUIDGID]
  from u have r: "R = (Inl (ErrOther ''operation not permitted''), (),
      [CallMkdirAll ''/var/lib/docker/0.0/devicemapper/mnt'' 493,
       CallChown ''/var/lib/docker/0.0/devicemapper/mnt'' 0 0,
       CallMkdir ''/var/lib/docker/0.0/devicemapper/mnt/abc'' 493,
       CallChown ''/var/lib/docker/0.0/devicemapper/mnt/abc'' 0 0,
       CallMountDevice ''abc'' ''/var/lib/docker/0.0/devicemapper/mnt/abc'' ''label'',
       CallMkdirAll ''/var/lib/docker/0.0/devicemapper/mnt/abc/rootfs'' 493,
       CallChown ''/var/lib/docker/0.0/devicemapper/mnt/abc/rootfs'' 0 0,
       CallUnmountDevice ''abc''])"
    by (simp add: Let_def exampleDriver_sel exampleOS_chownFails_sel example_Join
        MkdirAllAs_def MkdirAs_def mkdirAs_def mkdirAs_calls_def unlessIsExist_def
        prod_eq_iff)
  define Q where "Q = Driver_Get
      (loggedOS (exampleOS (Some ErrNotExist) (Some (ErrOther ''no space'')) None))
      (loggedDriver (exampleDriver True)) ''abc'' ''label'' ((), [])"
  have eQ: "Driver_Get
      (loggedOS (exampleOS (Some ErrNotExist) (Some (ErrOther ''no space'')) None))
      (loggedDriver (exampleDriver True)) ''abc'' ''label'' ((), []) =
      (fst Q, (), snd (snd Q))"
    by (simp add: Q_def prod_eq_iff)
  note v = Driver_Get_Put_balanced [OF eQ, THEN conjunct2, THEN conjunct2, rule_format,
      OF example_GetRootUIDGID]
  from v have q: "Q = (Inl (ErrOther ''no space''), (),
      [CallMkdirAll ''/var/lib/docker/0.0/devicemapper/mnt'' 493,
       CallChown ''/var/lib/docker/0.0/devicemapper/mnt'' 0 0,
       CallMkdir ''/var/lib/docker/0.0/devicemapper/mnt/abc'' 493,
       CallChown ''/var/lib/docker/0.0/devicemapper/mnt/abc'' 0 0,
       CallMountDevice ''abc'' ''/var/lib/docker/0.0/devicemapper/mnt/abc'' ''label'',
       CallMkdirAll ''/var/lib/docker/0.0/devicemapper/mnt/abc/rootfs'' 493,
       CallChown ''/var/lib/docker/0.0/devicemapper/mnt/abc/rootfs'' 0 0,
       CallStat ''/var/lib/docker/0.0/devicemapper/mnt/abc/id'',
       CallWriteFile ''/var/lib/docker/0.0/devicemapper/mnt/abc/id'' ''abc'' 384,
       CallUnmountDevice ''abc''])"
    by (simp add: Let_def exampleDriver_sel exampleOS_sel example_Join
        MkdirAllAs_def MkdirAs_def mkdirAs_def mkdirAs_calls_def unlessIsExist_def
        prod_eq_iff)
  show ?thesis
    using p s f r q
    by (simp add: example_Get_success example_Get_failure example_GetRootUIDGID R_def Q_def)
qed

end
